theory Spec2Isabelle
  imports Main "HOL-Library.Char_ord" "HOL-Library.List_Lexorder" "HOL-Library.AList"
begin

section \<open>Go strings\<close>

text \<open>
  A Go \<^verbatim>\<open>string\<close> is a sequence of bytes; it is modelled as a \<^typ>\<open>string\<close>
  (a list of 8-bit characters).  The functions of this section are the ones of
  package \<^verbatim>\<open>strings\<close> that \<^verbatim>\<open>net/url\<close>, \<^verbatim>\<open>path/filepath\<close> and
  \<^verbatim>\<open>normurl.go\<close> call.
\<close>

definition byte :: "char \<Rightarrow> nat" where
  "byte c = of_char c"

definition chr_quote :: char where
  "chr_quote = CHR 0x22"

definition chr_apos :: char where
  "chr_apos = CHR 0x27"

definition chr_backslash :: char where
  "chr_backslash = CHR 0x5C"

fun HasPrefix :: "string \<Rightarrow> string \<Rightarrow> bool" where
  "HasPrefix s [] = True"
| "HasPrefix [] (p # ps) = False"
| "HasPrefix (c # cs) (p # ps) = (c = p \<and> HasPrefix cs ps)"

definition HasSuffix :: "string \<Rightarrow> string \<Rightarrow> bool" where
  "HasSuffix s p = HasPrefix (rev s) (rev p)"

definition TrimPrefix :: "string \<Rightarrow> string \<Rightarrow> string" where
  "TrimPrefix s p = (if HasPrefix s p then drop (length p) s else s)"

definition Contains :: "string \<Rightarrow> char \<Rightarrow> bool" where
  "Contains s c = (c \<in> set s)"

definition Count :: "string \<Rightarrow> char \<Rightarrow> nat" where
  "Count s c = length (filter (\<lambda>x. x = c) s)"

text \<open>\<^verbatim>\<open>strings.Cut(s, sep)\<close> for a one-byte separator: the text before the first
  separator, the text after it, and whether the separator was found.\<close>

definition Cut :: "string \<Rightarrow> char \<Rightarrow> string \<times> string \<times> bool" where
  "Cut s c = (takeWhile (\<lambda>x. x \<noteq> c) s, drop 1 (dropWhile (\<lambda>x. x \<noteq> c) s), c \<in> set s)"

text \<open>\<^verbatim>\<open>strings.Index(s, sep)\<close>: the position of the first occurrence, if any.\<close>

fun Index :: "string \<Rightarrow> string \<Rightarrow> nat option" where
  "Index [] p = (if p = [] then Some 0 else None)"
| "Index (c # cs) p =
     (if HasPrefix (c # cs) p then Some 0
      else (case Index cs p of None \<Rightarrow> None | Some i \<Rightarrow> Some (Suc i)))"

text \<open>\<^verbatim>\<open>strings.LastIndex(s, sep)\<close> for a one-byte separator.\<close>

fun LastIndex :: "string \<Rightarrow> char \<Rightarrow> nat option" where
  "LastIndex [] c = None"
| "LastIndex (x # xs) c =
     (case LastIndex xs c of
        Some i \<Rightarrow> Some (Suc i)
      | None \<Rightarrow> (if x = c then Some 0 else None))"

text \<open>The pieces of \<open>s\<close> between the occurrences of the separator: what a loop of
  \<^verbatim>\<open>strings.Cut\<close> calls visits, one piece per iteration.\<close>

fun Split :: "string \<Rightarrow> char \<Rightarrow> string list" where
  "Split [] c = [[]]"
| "Split (x # xs) c =
     (if x = c then [] # Split xs c
      else (case Split xs c of [] \<Rightarrow> [[x]] | p # ps \<Rightarrow> (x # p) # ps))"

definition Join_strings :: "string list \<Rightarrow> string \<Rightarrow> string" where
  "Join_strings elems sep = concat (case elems of [] \<Rightarrow> [] | e # es \<Rightarrow> e # map (\<lambda>x. sep @ x) es)"

definition isLower :: "char \<Rightarrow> bool" where
  "isLower c = (97 \<le> byte c \<and> byte c \<le> 122)"

definition isUpper :: "char \<Rightarrow> bool" where
  "isUpper c = (65 \<le> byte c \<and> byte c \<le> 90)"

definition isDigit :: "char \<Rightarrow> bool" where
  "isDigit c = (48 \<le> byte c \<and> byte c \<le> 57)"

text \<open>\<^verbatim>\<open>strings.ToLower\<close> on the bytes \<^verbatim>\<open>A\<close> to \<^verbatim>\<open>Z\<close>; it is applied to scheme
  names only, which \<^verbatim>\<open>getScheme\<close> restricts to ASCII letters, digits and \<^verbatim>\<open>+-.\<close>.\<close>

definition ToLower :: "string \<Rightarrow> string" where
  "ToLower s = map (\<lambda>c. if isUpper c then char_of (byte c + 32) else c) s"

section \<open>Package net/url\<close>

text \<open>
  The model follows the Go standard library (\<^verbatim>\<open>net/url/url.go\<close>, Go 1.22): the
  functions keep their names, their case order and their checks.
\<close>

datatype url_error =
    InvalidControlCharacter
  | MissingProtocolScheme
  | FirstSegmentColon
  | InvalidUserinfo
  | MissingBracket
  | InvalidPort string
  | EscapeError string
  | InvalidHostError string

datatype encoding =
    encodePath
  | encodePathSegment
  | encodeHost
  | encodeZone
  | encodeUserPassword
  | encodeQueryComponent
  | encodeFragment

record Userinfo =
  username :: string
  password :: string
  passwordSet :: bool

record URL =
  Scheme :: string
  Opaque :: string
  User :: "Userinfo option"
  Host :: string
  Path :: string
  RawPath :: string
  OmitHost :: bool
  ForceQuery :: bool
  RawQuery :: string
  Fragment :: string
  RawFragment :: string

definition empty_URL :: URL where
  "empty_URL = \<lparr>Scheme = [], Opaque = [], User = None, Host = [], Path = [], RawPath = [],
     OmitHost = False, ForceQuery = False, RawQuery = [], Fragment = [], RawFragment = []\<rparr>"

definition ishex :: "char \<Rightarrow> bool" where
  "ishex c = (isDigit c \<or> (97 \<le> byte c \<and> byte c \<le> 102) \<or> (65 \<le> byte c \<and> byte c \<le> 70))"

definition unhex :: "char \<Rightarrow> nat" where
  "unhex c =
     (if isDigit c then byte c - 48
      else if 97 \<le> byte c \<and> byte c \<le> 102 then byte c - 97 + 10
      else if 65 \<le> byte c \<and> byte c \<le> 70 then byte c - 65 + 10
      else 0)"

definition upperhex :: "nat \<Rightarrow> char" where
  "upperhex n = ''0123456789ABCDEF'' ! n"

definition host_sub_delims :: "char set" where
  "host_sub_delims =
     set ''!$&()*+,;=:[]<>'' \<union> {chr_apos, chr_quote}"

text \<open>\<^verbatim>\<open>shouldEscape\<close>.  For a reserved character the source switches on the mode; the
  modes \<^verbatim>\<open>encodeHost\<close> and \<^verbatim>\<open>encodeZone\<close> have no case there, and the function goes on to
  its last statement, which answers \<^verbatim>\<open>true\<close>.\<close>

definition shouldEscape :: "char \<Rightarrow> encoding \<Rightarrow> bool" where
  "shouldEscape c mode =
     (if isLower c \<or> isUpper c \<or> isDigit c then False
      else if (mode = encodeHost \<or> mode = encodeZone) \<and> c \<in> host_sub_delims then False
      else if c \<in> set ''-_.~'' then False
      else if c \<in> set ''$&+,/:;=?@'' then
        (case mode of
           encodePath \<Rightarrow> c = CHR ''?''
         | encodePathSegment \<Rightarrow> c \<in> set ''/;,?''
         | encodeUserPassword \<Rightarrow> c \<in> set ''@/?:''
         | encodeQueryComponent \<Rightarrow> True
         | encodeFragment \<Rightarrow> False
         | _ \<Rightarrow> True)
      else if mode = encodeFragment \<and> c \<in> set ''!()*'' then False
      else True)"

text \<open>\<^verbatim>\<open>unescape\<close> checks the whole string and then decodes it; the model does both in
  one pass, which fails exactly when the check does, with the error of the first
  offending position.\<close>

fun unescape :: "string \<Rightarrow> encoding \<Rightarrow> url_error + string" where
  "unescape [] mode = Inr []"
| "unescape (c # cs) mode =
     (if c = CHR ''%'' then
        (case cs of
           a # b # rest \<Rightarrow>
             if \<not> ishex a \<or> \<not> ishex b then Inl (EscapeError (take 3 (c # cs)))
             else if mode = encodeHost \<and> unhex a < 8 \<and> [c, a, b] \<noteq> ''%25''
               then Inl (EscapeError [c, a, b])
             else if mode = encodeZone \<and> [c, a, b] \<noteq> ''%25''
                     \<and> char_of (unhex a * 16 + unhex b) \<noteq> CHR '' ''
                     \<and> shouldEscape (char_of (unhex a * 16 + unhex b)) encodeHost
               then Inl (EscapeError [c, a, b])
             else (case unescape rest mode of
                     Inl e \<Rightarrow> Inl e
                   | Inr t \<Rightarrow> Inr (char_of (unhex a * 16 + unhex b) # t))
         | _ \<Rightarrow> Inl (EscapeError (take 3 (c # cs))))
      else if c = CHR ''+'' then
        (case unescape cs mode of
           Inl e \<Rightarrow> Inl e
         | Inr t \<Rightarrow> Inr ((if mode = encodeQueryComponent then CHR '' '' else CHR ''+'') # t))
      else if (mode = encodeHost \<or> mode = encodeZone) \<and> byte c < 128 \<and> shouldEscape c encodeHost
        then Inl (InvalidHostError [c])
      else (case unescape cs mode of Inl e \<Rightarrow> Inl e | Inr t \<Rightarrow> Inr (c # t)))"

definition escape :: "string \<Rightarrow> encoding \<Rightarrow> string" where
  "escape s mode =
     concat (map (\<lambda>c.
       if shouldEscape c mode then
         (if c = CHR '' '' \<and> mode = encodeQueryComponent then ''+''
          else [CHR ''%'', upperhex (byte c div 16), upperhex (byte c mod 16)])
       else [c]) s)"

definition QueryUnescape :: "string \<Rightarrow> url_error + string" where
  "QueryUnescape s = unescape s encodeQueryComponent"

definition QueryEscape :: "string \<Rightarrow> string" where
  "QueryEscape s = escape s encodeQueryComponent"

definition validEncoded :: "string \<Rightarrow> encoding \<Rightarrow> bool" where
  "validEncoded s mode =
     list_all (\<lambda>c.
       if c \<in> set ''!$&()*+,;=:@'' \<or> c = chr_apos then True
       else if c \<in> set ''[]'' then True
       else if c = CHR ''%'' then True
       else \<not> shouldEscape c mode) s"

definition stringContainsCTLByte :: "string \<Rightarrow> bool" where
  "stringContainsCTLByte s = list_ex (\<lambda>b. byte b < 32 \<or> byte b = 127) s"

text \<open>\<^verbatim>\<open>getScheme\<close>: the loop over the bytes, with \<open>i\<close> the index of the byte at the
  head of the remaining text.\<close>

fun getScheme_from :: "string \<Rightarrow> nat \<Rightarrow> string \<Rightarrow> url_error + string \<times> string" where
  "getScheme_from rawURL i [] = Inr ([], rawURL)"
| "getScheme_from rawURL i (c # cs) =
     (if isLower c \<or> isUpper c then getScheme_from rawURL (Suc i) cs
      else if isDigit c \<or> c = CHR ''+'' \<or> c = CHR ''-'' \<or> c = CHR ''.'' then
        (if i = 0 then Inr ([], rawURL) else getScheme_from rawURL (Suc i) cs)
      else if c = CHR '':'' then
        (if i = 0 then Inl MissingProtocolScheme else Inr (take i rawURL, cs))
      else Inr ([], rawURL))"

definition getScheme :: "string \<Rightarrow> url_error + string \<times> string" where
  "getScheme rawURL = getScheme_from rawURL 0 rawURL"

definition validOptionalPort :: "string \<Rightarrow> bool" where
  "validOptionalPort port =
     (case port of
        [] \<Rightarrow> True
      | c # ds \<Rightarrow> c = CHR '':'' \<and> list_all isDigit ds)"

definition validUserinfo :: "string \<Rightarrow> bool" where
  "validUserinfo s =
     list_all (\<lambda>r. isUpper r \<or> isLower r \<or> isDigit r
                    \<or> r \<in> set ''-._:~!$&()*+,;=%@'' \<or> r = chr_apos) s"

definition parseHost :: "string \<Rightarrow> url_error + string" where
  "parseHost host =
     (if HasPrefix host ''['' then
        (case LastIndex host CHR '']'' of
           None \<Rightarrow> Inl MissingBracket
         | Some i \<Rightarrow>
             let colonPort = drop (Suc i) host in
             if \<not> validOptionalPort colonPort then Inl (InvalidPort colonPort)
             else (case Index (take i host) ''%25'' of
                     Some zone \<Rightarrow>
                       (case unescape (take zone host) encodeHost of
                          Inl e \<Rightarrow> Inl e
                        | Inr host1 \<Rightarrow>
                            (case unescape (drop zone (take i host)) encodeZone of
                               Inl e \<Rightarrow> Inl e
                             | Inr host2 \<Rightarrow>
                                 (case unescape (drop i host) encodeHost of
                                    Inl e \<Rightarrow> Inl e
                                  | Inr host3 \<Rightarrow> Inr (host1 @ host2 @ host3))))
                   | None \<Rightarrow> unescape host encodeHost))
      else
        (case LastIndex host CHR '':'' of
           Some i \<Rightarrow>
             let colonPort = drop i host in
             if \<not> validOptionalPort colonPort then Inl (InvalidPort colonPort)
             else unescape host encodeHost
         | None \<Rightarrow> unescape host encodeHost))"

definition parseAuthority :: "string \<Rightarrow> url_error + Userinfo option \<times> string" where
  "parseAuthority authority =
     (case LastIndex authority CHR ''@'' of
        None \<Rightarrow>
          (case parseHost authority of Inl e \<Rightarrow> Inl e | Inr host \<Rightarrow> Inr (None, host))
      | Some i \<Rightarrow>
          (case parseHost (drop (Suc i) authority) of
             Inl e \<Rightarrow> Inl e
           | Inr host \<Rightarrow>
               let userinfo = take i authority in
               if \<not> validUserinfo userinfo then Inl InvalidUserinfo
               else if \<not> Contains userinfo CHR '':'' then
                 (case unescape userinfo encodeUserPassword of
                    Inl e \<Rightarrow> Inl e
                  | Inr name \<Rightarrow>
                      Inr (Some \<lparr>username = name, password = [], passwordSet = False\<rparr>, host))
               else
                 (case Cut userinfo CHR '':'' of
                    (name0, pass0, _) \<Rightarrow>
                      (case unescape name0 encodeUserPassword of
                         Inl e \<Rightarrow> Inl e
                       | Inr name \<Rightarrow>
                           (case unescape pass0 encodeUserPassword of
                              Inl e \<Rightarrow> Inl e
                            | Inr pass \<Rightarrow>
                                Inr (Some \<lparr>username = name, password = pass,
                                           passwordSet = True\<rparr>, host))))))"

definition setPath :: "URL \<Rightarrow> string \<Rightarrow> url_error + URL" where
  "setPath u p =
     (case unescape p encodePath of
        Inl e \<Rightarrow> Inl e
      | Inr path \<Rightarrow>
          Inr (u\<lparr>Path := path, RawPath := (if p = escape path encodePath then [] else p)\<rparr>))"

definition setFragment :: "URL \<Rightarrow> string \<Rightarrow> url_error + URL" where
  "setFragment u f =
     (case unescape f encodeFragment of
        Inl e \<Rightarrow> Inl e
      | Inr frag \<Rightarrow>
          Inr (u\<lparr>Fragment := frag,
                 RawFragment := (if f = escape frag encodeFragment then [] else f)\<rparr>))"

text \<open>\<^verbatim>\<open>parse(rawURL, viaRequest)\<close> with \<^verbatim>\<open>viaRequest = false\<close>, as \<^verbatim>\<open>Parse\<close> calls it.\<close>

definition parse :: "string \<Rightarrow> url_error + URL" where
  "parse rawURL =
     (if stringContainsCTLByte rawURL then Inl InvalidControlCharacter
      else if rawURL = ''*'' then Inr (empty_URL\<lparr>Path := ''*''\<rparr>)
      else
        (case getScheme rawURL of
           Inl e \<Rightarrow> Inl e
         | Inr (scheme, rest0) \<Rightarrow>
             let url0 = empty_URL\<lparr>Scheme := ToLower scheme\<rparr>;
                 force = (HasSuffix rest0 ''?'' \<and> Count rest0 CHR ''?'' = 1);
                 rest1 = (if force then butlast rest0 else fst (Cut rest0 CHR ''?''));
                 url1 = (if force then url0\<lparr>ForceQuery := True\<rparr>
                         else url0\<lparr>RawQuery := fst (snd (Cut rest0 CHR ''?''))\<rparr>)
             in
             if \<not> HasPrefix rest1 ''/'' \<and> Scheme url1 \<noteq> [] then Inr (url1\<lparr>Opaque := rest1\<rparr>)
             else if \<not> HasPrefix rest1 ''/'' \<and> Contains (fst (Cut rest1 CHR ''/'')) CHR '':''
               then Inl FirstSegmentColon
             else if (Scheme url1 \<noteq> [] \<or> \<not> HasPrefix rest1 ''///'') \<and> HasPrefix rest1 ''//'' then
               (let authority0 = drop 2 rest1;
                    authority = (case Index authority0 ''/'' of
                                   Some i \<Rightarrow> take i authority0 | None \<Rightarrow> authority0);
                    rest2 = (case Index authority0 ''/'' of
                               Some i \<Rightarrow> drop i authority0 | None \<Rightarrow> [])
                in case parseAuthority authority of
                     Inl e \<Rightarrow> Inl e
                   | Inr (user, host) \<Rightarrow> setPath (url1\<lparr>User := user, Host := host\<rparr>) rest2)
             else if Scheme url1 \<noteq> [] \<and> HasPrefix rest1 ''/'' then
               setPath (url1\<lparr>OmitHost := True\<rparr>) rest1
             else setPath url1 rest1))"

definition Parse :: "string \<Rightarrow> url_error + URL" where
  "Parse rawURL =
     (case Cut rawURL CHR ''#'' of
        (u, frag, _) \<Rightarrow>
          (case parse u of
             Inl e \<Rightarrow> Inl e
           | Inr url \<Rightarrow> if frag = [] then Inr url else setFragment url frag))"


definition EscapedPath :: "URL \<Rightarrow> string" where
  "EscapedPath u =
     (if RawPath u \<noteq> [] \<and> validEncoded (RawPath u) encodePath
         \<and> unescape (RawPath u) encodePath = Inr (Path u)
      then RawPath u
      else if Path u = ''*'' then ''*''
      else escape (Path u) encodePath)"

definition EscapedFragment :: "URL \<Rightarrow> string" where
  "EscapedFragment u =
     (if RawFragment u \<noteq> [] \<and> validEncoded (RawFragment u) encodeFragment
         \<and> unescape (RawFragment u) encodeFragment = Inr (Fragment u)
      then RawFragment u
      else escape (Fragment u) encodeFragment)"

definition Userinfo_String :: "Userinfo \<Rightarrow> string" where
  "Userinfo_String ui =
     escape (username ui) encodeUserPassword
       @ (if passwordSet ui then '':'' @ escape (password ui) encodeUserPassword else [])"

text \<open>\<^verbatim>\<open>(*URL).String\<close>: the pieces are appended to the buffer in the order of the
  source; \<open>authority\<close> is what the buffer holds when the path is written.\<close>

definition URL_String :: "URL \<Rightarrow> string" where
  "URL_String u =
     (let scheme = (if Scheme u \<noteq> [] then Scheme u @ '':'' else []);
          body =
            (if Opaque u \<noteq> [] then scheme @ Opaque u
             else
               let authority =
                     (if Scheme u \<noteq> [] \<or> Host u \<noteq> [] \<or> User u \<noteq> None then
                        (if OmitHost u \<and> Host u = [] \<and> User u = None then []
                         else
                           (if Host u \<noteq> [] \<or> Path u \<noteq> [] \<or> User u \<noteq> None then ''//'' else [])
                           @ (case User u of None \<Rightarrow> [] | Some ui \<Rightarrow> Userinfo_String ui @ ''@'')
                           @ (if Host u \<noteq> [] then escape (Host u) encodeHost else []))
                      else []);
                   buf1 = scheme @ authority;
                   path = EscapedPath u;
                   buf2 = (if path \<noteq> [] \<and> hd path \<noteq> CHR ''/'' \<and> Host u \<noteq> []
                           then buf1 @ ''/'' else buf1);
                   buf3 = (if buf2 = [] \<and> Contains (fst (Cut path CHR ''/'')) CHR '':''
                           then ''./'' else buf2)
               in buf3 @ path)
      in body
         @ (if ForceQuery u \<or> RawQuery u \<noteq> [] then ''?'' @ RawQuery u else [])
         @ (if Fragment u \<noteq> [] then ''#'' @ EscapedFragment u else []))"

subsection \<open>Query values\<close>

text \<open>
  \<^verbatim>\<open>url.Values\<close> is a Go map from parameter names to lists of values.  It is
  modelled as an association list with distinct keys; the order of the entries
  carries no meaning (\<^verbatim>\<open>Encode\<close> sorts the keys).
\<close>

type_synonym Values = "(string \<times> string list) list"

definition Values_Get :: "Values \<Rightarrow> string \<Rightarrow> string list" where
  "Values_Get v key = (case map_of v key of None \<Rightarrow> [] | Some vs \<Rightarrow> vs)"

definition Values_Set :: "Values \<Rightarrow> string \<Rightarrow> string \<Rightarrow> Values" where
  "Values_Set v key val = AList.update key [val] v"

definition Values_Del :: "Values \<Rightarrow> string \<Rightarrow> Values" where
  "Values_Del v key = AList.delete key v"

text \<open>One iteration of the loop of \<^verbatim>\<open>parseQuery\<close>, on the piece \<open>key0\<close> that the cut at
  \<^verbatim>\<open>&\<close> produced.  \<^verbatim>\<open>(*URL).Query\<close> drops the error, so the model does not record
  it.\<close>

definition parseQuery_step :: "string \<Rightarrow> Values \<Rightarrow> Values" where
  "parseQuery_step key0 m =
     (if Contains key0 CHR '';'' then m
      else if key0 = [] then m
      else
        (case Cut key0 CHR ''='' of
           (key1, value1, _) \<Rightarrow>
             (case QueryUnescape key1 of
                Inl e \<Rightarrow> m
              | Inr key \<Rightarrow>
                  (case QueryUnescape value1 of
                     Inl e \<Rightarrow> m
                   | Inr val \<Rightarrow> AList.update key (Values_Get m key @ [val]) m))))"

definition parseQuery :: "Values \<Rightarrow> string \<Rightarrow> Values" where
  "parseQuery m query = fold parseQuery_step (Split query CHR ''&'') m"

definition Query :: "URL \<Rightarrow> Values" where
  "Query u = parseQuery [] (RawQuery u)"

definition Values_Encode :: "Values \<Rightarrow> string" where
  "Values_Encode v =
     Join_strings
       (concat (map (\<lambda>k. map (\<lambda>val. QueryEscape k @ ''='' @ QueryEscape val) (Values_Get v k))
                    (sort (remdups (map fst v)))))
       ''&''"

subsection \<open>Reference resolution\<close>

text \<open>The loop of \<^verbatim>\<open>resolvePath\<close> over the elements of the path: \<open>dst\<close> is the buffer
  after its leading slash, \<open>first\<close> the flag of the source.\<close>

fun resolvePath_loop :: "string list \<Rightarrow> string \<Rightarrow> bool \<Rightarrow> string" where
  "resolvePath_loop [] dst first = dst"
| "resolvePath_loop (elem # elems) dst first =
     (if elem = ''.'' then
        (if elems = [] then dst @ ''/'' else resolvePath_loop elems dst False)
      else if elem = ''..'' then
        (case LastIndex dst CHR ''/'' of
           None \<Rightarrow> (if elems = [] then ''/'' else resolvePath_loop elems [] True)
         | Some index \<Rightarrow>
             (if elems = [] then take index dst @ ''/''
              else resolvePath_loop elems (take index dst) first))
      else resolvePath_loop elems ((if first then dst else dst @ ''/'') @ elem) False)"

definition resolvePath :: "string \<Rightarrow> string \<Rightarrow> string" where
  "resolvePath base ref =
     (let full =
            (if ref = [] then base
             else if hd ref \<noteq> CHR ''/'' then
               (case LastIndex base CHR ''/'' of
                  None \<Rightarrow> ref
                | Some i \<Rightarrow> take (Suc i) base @ ref)
             else ref)
      in if full = [] then []
         else
           let r = CHR ''/'' # resolvePath_loop (Split full CHR ''/'') [] True
           in if length r > 1 \<and> r ! 1 = CHR ''/'' then tl r else r)"

text \<open>\<^verbatim>\<open>ResolveReference\<close> ignores the error of \<^verbatim>\<open>setPath\<close>, which leaves the URL as
  it was.\<close>

definition setPath_ignore :: "URL \<Rightarrow> string \<Rightarrow> URL" where
  "setPath_ignore u p = (case setPath u p of Inl e \<Rightarrow> u | Inr u' \<Rightarrow> u')"

definition ResolveReference :: "URL \<Rightarrow> URL \<Rightarrow> URL" where
  "ResolveReference u ref =
     (let url0 = (if Scheme ref = [] then ref\<lparr>Scheme := Scheme u\<rparr> else ref) in
      if Scheme ref \<noteq> [] \<or> Host ref \<noteq> [] \<or> User ref \<noteq> None then
        setPath_ignore url0 (resolvePath (EscapedPath ref) [])
      else if Opaque ref \<noteq> [] then url0\<lparr>User := None, Host := [], Path := []\<rparr>
      else
        let url1 =
              (if Path ref = [] \<and> \<not> ForceQuery ref \<and> RawQuery ref = [] then
                 (if Fragment ref = [] then
                    url0\<lparr>RawQuery := RawQuery u, Fragment := Fragment u,
                         RawFragment := RawFragment u\<rparr>
                  else url0\<lparr>RawQuery := RawQuery u\<rparr>)
               else url0)
        in if Path ref = [] \<and> Opaque u \<noteq> [] then
             url1\<lparr>Opaque := Opaque u, User := None, Host := [], Path := []\<rparr>
           else
             setPath_ignore (url1\<lparr>Host := Host u, User := User u\<rparr>)
               (resolvePath (EscapedPath u) (EscapedPath ref)))"

section \<open>Package path/filepath\<close>

text \<open>
  The functions of \<^verbatim>\<open>path/filepath\<close> depend on the platform the program is built
  for, and \<^verbatim>\<open>New\<close> reads \<^verbatim>\<open>runtime.GOOS\<close>.  A \<open>platform\<close> holds the value of
  \<^verbatim>\<open>runtime.GOOS\<close> and the four functions that \<^verbatim>\<open>normurl.go\<close> calls; \<open>posix\<close> below
  is the platform of the Unix builds (\<^verbatim>\<open>path_unix.go\<close> and \<^verbatim>\<open>path.go\<close>).
\<close>

record platform =
  GOOS :: string
  IsAbs :: "string \<Rightarrow> bool"
  Dir :: "string \<Rightarrow> string"
  Join :: "string \<Rightarrow> string \<Rightarrow> string"
  FromSlash :: "string \<Rightarrow> string"

definition unix_IsAbs :: "string \<Rightarrow> bool" where
  "unix_IsAbs path = HasPrefix path ''/''"

text \<open>The backtracking loop of \<^verbatim>\<open>Clean\<close> at a \<^verbatim>\<open>..\<close> element: \<open>w\<close> is decremented
  once, then for as long as it is above \<open>dotdot\<close> and the buffer holds no separator at
  \<open>w\<close>.\<close>

fun Clean_backtrack :: "string \<Rightarrow> nat \<Rightarrow> nat \<Rightarrow> nat" where
  "Clean_backtrack out dotdot 0 = 0"
| "Clean_backtrack out dotdot (Suc w) =
     (if Suc w > dotdot \<and> out ! (Suc w) \<noteq> CHR ''/'' then Clean_backtrack out dotdot w
      else Suc w)"

text \<open>The main loop of \<^verbatim>\<open>Clean\<close>, one step for each element between separators
  (the source walks the bytes and skips the separators one at a time): \<open>out\<close> is
  the written part of the buffer, so \<^verbatim>\<open>out.w\<close> is its length.\<close>

fun Clean_loop :: "bool \<Rightarrow> string list \<Rightarrow> string \<Rightarrow> nat \<Rightarrow> string" where
  "Clean_loop rooted [] out dotdot = out"
| "Clean_loop rooted (elem # elems) out dotdot =
     (if elem = [] \<or> elem = ''.'' then Clean_loop rooted elems out dotdot
      else if elem = ''..'' then
        (if length out > dotdot then
           Clean_loop rooted elems (take (Clean_backtrack out dotdot (length out - 1)) out) dotdot
         else if \<not> rooted then
           (let out' = (if length out > 0 then out @ ''/'' else out) @ ''..''
            in Clean_loop rooted elems out' (length out'))
         else Clean_loop rooted elems out dotdot)
      else
        Clean_loop rooted elems
          ((if (rooted \<and> length out \<noteq> 1) \<or> (\<not> rooted \<and> length out \<noteq> 0) then out @ ''/'' else out)
             @ elem)
          dotdot)"

definition unix_Clean :: "string \<Rightarrow> string" where
  "unix_Clean path =
     (if path = [] then ''.''
      else
        let rooted = (hd path = CHR ''/'');
            out = (if rooted then Clean_loop True (Split path CHR ''/'') ''/'' 1
                   else Clean_loop False (Split path CHR ''/'') [] 0)
        in if out = [] then ''.'' else out)"

definition unix_Dir :: "string \<Rightarrow> string" where
  "unix_Dir path =
     unix_Clean (case LastIndex path CHR ''/'' of None \<Rightarrow> [] | Some i \<Rightarrow> take (Suc i) path)"

definition unix_Join :: "string \<Rightarrow> string \<Rightarrow> string" where
  "unix_Join a b =
     (if a \<noteq> [] then unix_Clean (a @ ''/'' @ b)
      else if b \<noteq> [] then unix_Clean b
      else [])"

definition posix :: platform where
  "posix = \<lparr>GOOS = ''linux'', IsAbs = unix_IsAbs, Dir = unix_Dir, Join = unix_Join,
     FromSlash = (\<lambda>s. s)\<rparr>"


section \<open>Package encoding/json, for the type jsonLocator\<close>

text \<open>
  \<^verbatim>\<open>type jsonLocator struct { Url string; File bool }\<close> is the structured form of a
  Locator.  This section models \<^verbatim>\<open>json.Marshal\<close> and \<^verbatim>\<open>json.Unmarshal\<close> of the Go
  standard library (Go 1.22) at this type: the encoder of strings with its escapes,
  the syntax check of the scanner, the decoding of string literals, and the rules by
  which the decoder stores the members of an object into the fields of the struct.
\<close>

record jsonLocator =
  Url :: string
  File :: bool

datatype json_error = SyntaxError | UnmarshalTypeError

subsection \<open>UTF-8\<close>

definition cont_byte :: "char \<Rightarrow> bool" where
  "cont_byte c = (128 \<le> byte c \<and> byte c \<le> 191)"

text \<open>The size of the encoding that \<^verbatim>\<open>utf8.DecodeRune\<close> accepts at the head of the
  text, for a first byte of \<^verbatim>\<open>0x80\<close> or more; \<open>None\<close> when it answers
  \<^verbatim>\<open>(RuneError, 1)\<close>.\<close>

definition utf8_multibyte :: "string \<Rightarrow> nat option" where
  "utf8_multibyte s =
     (case s of
        [] \<Rightarrow> None
      | p0 # t \<Rightarrow>
          let x = byte p0;
              sz = (if 194 \<le> x \<and> x \<le> 223 then 2
                    else if 224 \<le> x \<and> x \<le> 239 then 3
                    else if 240 \<le> x \<and> x \<le> 244 then 4 else 0);
              lo = (if x = 224 then 160 else if x = 240 then 144 else 128);
              hi = (if x = 237 then 159 else if x = 244 then 143 else 191)
          in if sz = 0 \<or> length s < sz then None
             else if byte (t ! 0) < lo \<or> hi < byte (t ! 0) then None
             else if sz = 2 then Some 2
             else if \<not> cont_byte (t ! 1) then None
             else if sz = 3 then Some 3
             else if \<not> cont_byte (t ! 2) then None
             else Some 4)"

definition RuneError_utf8 :: string where
  "RuneError_utf8 = [CHR 0xEF, CHR 0xBF, CHR 0xBD]"

text \<open>\<^verbatim>\<open>utf8.EncodeRune\<close> (appended to the buffer).\<close>

definition EncodeRune :: "nat \<Rightarrow> string" where
  "EncodeRune r =
     (if r \<le> 127 then [char_of r]
      else if r \<le> 2047 then [char_of (192 + r div 64), char_of (128 + r mod 64)]
      else if r > 1114111 \<or> (55296 \<le> r \<and> r \<le> 57343) then RuneError_utf8
      else if r \<le> 65535 then
        [char_of (224 + r div 4096), char_of (128 + r div 64 mod 64), char_of (128 + r mod 64)]
      else
        [char_of (240 + r div 262144), char_of (128 + r div 4096 mod 64),
         char_of (128 + r div 64 mod 64), char_of (128 + r mod 64)])"

subsection \<open>Encoding\<close>








subsection \<open>Decoding: the tokens\<close>

datatype token =
    TBeginObject | TEndObject | TBeginArray | TEndArray | TColon | TComma
  | TString string | TNumber | TTrue | TFalse | TNull

text \<open>The scanner inside a string literal (\<^verbatim>\<open>stateInString\<close>, \<^verbatim>\<open>stateInStringEsc\<close>,
  \<^verbatim>\<open>stateInStringEscU\<close> and the three states after it): the position of the
  closing quote, or \<open>None\<close> for a syntax error.\<close>

fun string_end :: "string \<Rightarrow> nat option" where
  "string_end [] = None"
| "string_end (c # cs) =
     (if c = chr_quote then Some 0
      else if c = chr_backslash then
        (case cs of
           [] \<Rightarrow> None
         | e # rest \<Rightarrow>
             if e \<in> set ''bfnrt/'' \<or> e = chr_backslash \<or> e = chr_quote then
               map_option (\<lambda>n. n + 2) (string_end rest)
             else if e = CHR ''u'' then
               (case rest of
                  h1 # h2 # h3 # h4 # rest' \<Rightarrow>
                    if ishex h1 \<and> ishex h2 \<and> ishex h3 \<and> ishex h4
                    then map_option (\<lambda>n. n + 6) (string_end rest')
                    else None
                | _ \<Rightarrow> None)
             else None)
      else if byte c < 32 then None
      else map_option Suc (string_end cs))"

definition getu4 :: "string \<Rightarrow> nat option" where
  "getu4 s =
     (case s of
        b # u # h1 # h2 # h3 # h4 # _ \<Rightarrow>
          if b = chr_backslash \<and> u = CHR ''u'' \<and> ishex h1 \<and> ishex h2 \<and> ishex h3 \<and> ishex h4
          then Some (((unhex h1 * 16 + unhex h2) * 16 + unhex h3) * 16 + unhex h4)
          else None
      | _ \<Rightarrow> None)"

definition IsSurrogate :: "nat \<Rightarrow> bool" where
  "IsSurrogate r = (55296 \<le> r \<and> r < 57344)"

text \<open>\<^verbatim>\<open>utf16.DecodeRune\<close>: \<open>None\<close> when it answers the replacement character.\<close>

definition utf16_DecodeRune :: "nat \<Rightarrow> nat \<Rightarrow> nat option" where
  "utf16_DecodeRune r1 r2 =
     (if 55296 \<le> r1 \<and> r1 < 56320 \<and> 56320 \<le> r2 \<and> r2 < 57344
      then Some ((r1 - 55296) * 1024 + (r2 - 56320) + 65536)
      else None)"

text \<open>\<^verbatim>\<open>unquoteBytes\<close> on the text between the quotes.  The source first looks for a
  byte that needs work and returns the text itself when there is none; the second
  loop, modelled here, gives the same answer on such a text.\<close>

fun unquote :: "string \<Rightarrow> string option" where
  "unquote [] = Some []"
| "unquote (c # cs) =
     (if c = chr_backslash then
        (case cs of
           [] \<Rightarrow> None
         | e # rest \<Rightarrow>
             if e = chr_quote \<or> e = chr_backslash \<or> e = CHR ''/'' \<or> e = chr_apos then
               map_option ((#) e) (unquote rest)
             else if e = CHR ''b'' then map_option ((#) (CHR 0x08)) (unquote rest)
             else if e = CHR ''f'' then map_option ((#) (CHR 0x0C)) (unquote rest)
             else if e = CHR ''n'' then map_option ((#) (CHR 0x0A)) (unquote rest)
             else if e = CHR ''r'' then map_option ((#) (CHR 0x0D)) (unquote rest)
             else if e = CHR ''t'' then map_option ((#) (CHR 0x09)) (unquote rest)
             else if e = CHR ''u'' then
               (case getu4 (c # cs) of
                  None \<Rightarrow> None
                | Some rr \<Rightarrow>
                    if IsSurrogate rr then
                      (case getu4 (drop 4 rest) of
                         None \<Rightarrow> map_option ((@) RuneError_utf8) (unquote (drop 4 rest))
                       | Some rr1 \<Rightarrow>
                           (case utf16_DecodeRune rr rr1 of
                              Some dec \<Rightarrow>
                                map_option ((@) (EncodeRune dec)) (unquote (drop 6 (drop 4 rest)))
                            | None \<Rightarrow>
                                map_option ((@) RuneError_utf8) (unquote (drop 4 rest))))
                    else map_option ((@) (EncodeRune rr)) (unquote (drop 4 rest)))
             else None)
      else if c = chr_quote \<or> byte c < 32 then None
      else if byte c < 128 then map_option ((#) c) (unquote cs)
      else
        (case utf8_multibyte (c # cs) of
           None \<Rightarrow> map_option ((@) RuneError_utf8) (unquote cs)
         | Some sz \<Rightarrow> map_option ((@) (take sz (c # cs))) (unquote (drop (sz - 1) cs))))"

text \<open>The scanner inside a number: the states \<^verbatim>\<open>stateNeg\<close>, \<^verbatim>\<open>state0\<close>, \<^verbatim>\<open>state1\<close>,
  \<^verbatim>\<open>stateDot\<close>, \<^verbatim>\<open>stateDot0\<close>, \<^verbatim>\<open>stateE\<close>, \<^verbatim>\<open>stateESign\<close> and \<^verbatim>\<open>stateE0\<close>.\<close>

datatype number_state = stateNeg | state0 | state1 | stateDot | stateDot0 | stateE | stateESign | stateE0

definition number_next :: "number_state \<Rightarrow> char \<Rightarrow> number_state option" where
  "number_next st c =
     (case st of
        stateNeg \<Rightarrow> (if c = CHR ''0'' then Some state0 else if isDigit c then Some state1 else None)
      | state0 \<Rightarrow> (if c = CHR ''.'' then Some stateDot
                    else if c = CHR ''e'' \<or> c = CHR ''E'' then Some stateE else None)
      | state1 \<Rightarrow> (if isDigit c then Some state1
                    else if c = CHR ''.'' then Some stateDot
                    else if c = CHR ''e'' \<or> c = CHR ''E'' then Some stateE else None)
      | stateDot \<Rightarrow> (if isDigit c then Some stateDot0 else None)
      | stateDot0 \<Rightarrow> (if isDigit c then Some stateDot0
                       else if c = CHR ''e'' \<or> c = CHR ''E'' then Some stateE else None)
      | stateE \<Rightarrow> (if c = CHR ''+'' \<or> c = CHR ''-'' then Some stateESign
                    else if isDigit c then Some stateE0 else None)
      | stateESign \<Rightarrow> (if isDigit c then Some stateE0 else None)
      | stateE0 \<Rightarrow> (if isDigit c then Some stateE0 else None))"

definition number_may_end :: "number_state \<Rightarrow> bool" where
  "number_may_end st = (st = state0 \<or> st = state1 \<or> st = stateDot0 \<or> st = stateE0)"

text \<open>The number of bytes that the number takes from the text, from state \<open>st\<close> on;
  \<open>None\<close> when the number stops in a state where it may not.\<close>

fun number_end :: "number_state \<Rightarrow> string \<Rightarrow> nat option" where
  "number_end st [] = (if number_may_end st then Some 0 else None)"
| "number_end st (c # cs) =
     (case number_next st c of
        Some st' \<Rightarrow> map_option Suc (number_end st' cs)
      | None \<Rightarrow> (if number_may_end st then Some 0 else None))"

fun lex :: "string \<Rightarrow> token list option" where
  "lex [] = Some []"
| "lex (c # cs) =
     (if c = CHR '' '' \<or> c = CHR 0x09 \<or> c = CHR 0x0D \<or> c = CHR 0x0A then lex cs
      else if c = CHR ''{'' then map_option ((#) TBeginObject) (lex cs)
      else if c = CHR ''}'' then map_option ((#) TEndObject) (lex cs)
      else if c = CHR ''['' then map_option ((#) TBeginArray) (lex cs)
      else if c = CHR '']'' then map_option ((#) TEndArray) (lex cs)
      else if c = CHR '':'' then map_option ((#) TColon) (lex cs)
      else if c = CHR '','' then map_option ((#) TComma) (lex cs)
      else if c = chr_quote then
        (case string_end cs of
           None \<Rightarrow> None
         | Some n \<Rightarrow>
             (case unquote (take n cs) of
                None \<Rightarrow> None
              | Some s \<Rightarrow> map_option ((#) (TString s)) (lex (drop (Suc n) cs))))
      else if c = CHR ''t'' then
        (if HasPrefix cs ''rue'' then map_option ((#) TTrue) (lex (drop 3 cs)) else None)
      else if c = CHR ''f'' then
        (if HasPrefix cs ''alse'' then map_option ((#) TFalse) (lex (drop 4 cs)) else None)
      else if c = CHR ''n'' then
        (if HasPrefix cs ''ull'' then map_option ((#) TNull) (lex (drop 3 cs)) else None)
      else if c = CHR ''-'' \<or> isDigit c then
        (case number_end (if c = CHR ''-'' then stateNeg
                          else if c = CHR ''0'' then state0 else state1) cs of
           None \<Rightarrow> None
         | Some n \<Rightarrow> map_option ((#) TNumber) (lex (drop n cs)))
      else None)"

subsection \<open>Decoding: the values\<close>

datatype json =
    JNull | JBool bool | JNumber | JString string
  | JArray "json list" | JObject "(string \<times> json) list"

text \<open>The stack of the scanner (\<^verbatim>\<open>parseState\<close>): an array with the elements read so far,
  or an object with the members read so far and the key of the member being read.\<close>

datatype frame = FArray "json list" | FObject "(string \<times> json) list" string

datatype expect =
    ExpValue | ExpValueOrEnd | ExpKeyOrEnd | ExpKey | ExpColon | ExpCommaOrEnd | ExpEOF

definition maxNestingDepth :: nat where
  "maxNestingDepth = 10000"

text \<open>A value is complete: it is the document, an element of the array or the value of
  the member on top of the stack.\<close>

fun deliver :: "json \<Rightarrow> frame list \<Rightarrow> frame list \<times> expect \<times> json option" where
  "deliver v [] = ([], ExpEOF, Some v)"
| "deliver v (FArray es # st) = (FArray (es @ [v]) # st, ExpCommaOrEnd, None)"
| "deliver v (FObject ms k # st) = (FObject (ms @ [(k, v)]) k # st, ExpCommaOrEnd, None)"

fun scalar :: "token \<Rightarrow> json option" where
  "scalar (TString s) = Some (JString s)"
| "scalar TNumber = Some JNumber"
| "scalar TTrue = Some (JBool True)"
| "scalar TFalse = Some (JBool False)"
| "scalar TNull = Some JNull"
| "scalar _ = None"

text \<open>The grammar of the scanner over the tokens; the answer is the value of the
  document, or \<open>None\<close> for a syntax error.\<close>

fun parse_tokens :: "token list \<Rightarrow> frame list \<Rightarrow> expect \<Rightarrow> json option \<Rightarrow> json option" where
  "parse_tokens [] st ex doc = (if ex = ExpEOF then doc else None)"
| "parse_tokens (t # ts) st ex doc =
     (if (ex = ExpValue \<or> ex = ExpValueOrEnd) \<and> t = TBeginObject then
        (if length st < maxNestingDepth then parse_tokens ts (FObject [] [] # st) ExpKeyOrEnd doc
         else None)
      else if (ex = ExpValue \<or> ex = ExpValueOrEnd) \<and> t = TBeginArray then
        (if length st < maxNestingDepth then parse_tokens ts (FArray [] # st) ExpValueOrEnd doc
         else None)
      else if (ex = ExpValue \<or> ex = ExpValueOrEnd) \<and> scalar t \<noteq> None then
        (case deliver (the (scalar t)) st of (st', ex', doc') \<Rightarrow> parse_tokens ts st' ex' doc')
      else if (ex = ExpValueOrEnd \<or> ex = ExpCommaOrEnd) \<and> t = TEndArray then
        (case st of
           FArray es # st0 \<Rightarrow>
             (case deliver (JArray es) st0 of (st', ex', doc') \<Rightarrow> parse_tokens ts st' ex' doc')
         | _ \<Rightarrow> None)
      else if (ex = ExpKeyOrEnd \<or> ex = ExpCommaOrEnd) \<and> t = TEndObject then
        (case st of
           FObject ms k # st0 \<Rightarrow>
             (case deliver (JObject ms) st0 of (st', ex', doc') \<Rightarrow> parse_tokens ts st' ex' doc')
         | _ \<Rightarrow> None)
      else if ex = ExpKeyOrEnd \<or> ex = ExpKey then
        (case (t, st) of
           (TString k, FObject ms _ # st0) \<Rightarrow> parse_tokens ts (FObject ms k # st0) ExpColon doc
         | _ \<Rightarrow> None)
      else if ex = ExpColon \<and> t = TColon then parse_tokens ts st ExpValue doc
      else if ex = ExpCommaOrEnd \<and> t = TComma then
        (case st of
           FArray es # st0 \<Rightarrow> parse_tokens ts st ExpValue doc
         | FObject ms k # st0 \<Rightarrow> parse_tokens ts st ExpKey doc
         | [] \<Rightarrow> None)
      else None)"

definition json_parse :: "string \<Rightarrow> json option" where
  "json_parse data =
     (case lex data of None \<Rightarrow> None | Some ts \<Rightarrow> parse_tokens ts [] ExpValue None)"

subsection \<open>Decoding: the struct\<close>

text \<open>\<^verbatim>\<open>foldName\<close> on a key.  Only the folded names \<^verbatim>\<open>URL\<close> and \<^verbatim>\<open>FILE\<close> are
  looked up, and no rune outside ASCII folds to one of their letters, so the model
  folds the ASCII letters and leaves every other byte as it is.\<close>

definition foldName :: "string \<Rightarrow> string" where
  "foldName s = map (\<lambda>c. if isLower c then char_of (byte c - 32) else c) s"

datatype field = Field_Url | Field_File

text \<open>The field that a key of the object names: the exact name first, then the folded
  one.\<close>

definition field_of :: "string \<Rightarrow> field option" where
  "field_of key =
     (if key = ''Url'' then Some Field_Url
      else if key = ''File'' then Some Field_File
      else if foldName key = ''URL'' then Some Field_Url
      else if foldName key = ''FILE'' then Some Field_File
      else None)"

text \<open>One member of the object: the state is the struct and whether an error has been
  saved (\<^verbatim>\<open>d.saveError\<close>).  \<^verbatim>\<open>null\<close> leaves a string or a bool as it is; a value of
  another kind saves an \<^verbatim>\<open>UnmarshalTypeError\<close> and is skipped.\<close>

fun store_member :: "string \<times> json \<Rightarrow> jsonLocator \<times> bool \<Rightarrow> jsonLocator \<times> bool" where
  "store_member (key, v) (jl, err) =
     (case field_of key of
        None \<Rightarrow> (jl, err)
      | Some Field_Url \<Rightarrow>
          (case v of
             JString s \<Rightarrow> (jl\<lparr>Url := s\<rparr>, err)
           | JNull \<Rightarrow> (jl, err)
           | _ \<Rightarrow> (jl, True))
      | Some Field_File \<Rightarrow>
          (case v of
             JBool b \<Rightarrow> (jl\<lparr>File := b\<rparr>, err)
           | JNull \<Rightarrow> (jl, err)
           | _ \<Rightarrow> (jl, True)))"

text \<open>\<^verbatim>\<open>json.Unmarshal(data, &jl)\<close> for a \<^verbatim>\<open>jl\<close> that holds the zero value.\<close>

definition json_Unmarshal :: "string \<Rightarrow> json_error + jsonLocator" where
  "json_Unmarshal data =
     (case json_parse data of
        None \<Rightarrow> Inl SyntaxError
      | Some (JObject ms) \<Rightarrow>
          (case fold store_member ms (\<lparr>Url = [], File = False\<rparr>, False) of
             (jl, err) \<Rightarrow> if err then Inl UnmarshalTypeError else Inr jl)
      | Some JNull \<Rightarrow> Inr \<lparr>Url = [], File = False\<rparr>
      | Some _ \<Rightarrow> Inl UnmarshalTypeError)"

section \<open>Locators\<close>

text \<open>
  \<^verbatim>\<open>type Locator struct { url *url.URL; file bool }\<close>.  Every Locator that \<^verbatim>\<open>New\<close>,
  \<^verbatim>\<open>Resolve\<close> or \<^verbatim>\<open>UnmarshalJSON\<close> builds points to a URL of its own, so the URL is
  a field of the record; \<^verbatim>\<open>SetQueryParam\<close>, which writes through the pointer,
  returns the updated Locator.
\<close>

record Locator =
  url :: URL
  "file" :: bool

text \<open>The errors that the functions of \<^verbatim>\<open>normurl.go\<close> return: the error of
  \<^verbatim>\<open>url.Parse\<close>, \<^verbatim>\<open>"expected absolute path"\<close>, \<^verbatim>\<open>"unsupported scheme %s"\<close> with the
  scheme, \<^verbatim>\<open>"missing url"\<close>, \<^verbatim>\<open>"file flag mismatch"\<close>, and the error of
  \<^verbatim>\<open>json.Unmarshal\<close>.\<close>

datatype error =
    ParseError url_error
  | InvalidPathError
  | UnsupportedSchemeError string
  | MissingFieldError
  | InconsistentStateError
  | JSONError json_error

definition String :: "Locator \<Rightarrow> string" where
  "String l = URL_String (url l)"

definition IsFilepath :: "Locator \<Rightarrow> bool" where
  "IsFilepath l = file l"

definition SetQueryParam :: "Locator \<Rightarrow> string \<Rightarrow> string \<Rightarrow> Locator" where
  "SetQueryParam l param val =
     (if file l then l
      else
        let query = Query (url l);
            query' = (if val \<noteq> [] then Values_Set query param val else Values_Del query param)
        in l\<lparr>url := (url l)\<lparr>RawQuery := Values_Encode query'\<rparr>\<rparr>)"

definition New :: "platform \<Rightarrow> string \<Rightarrow> error + Locator" where
  "New p s =
     (case Parse s of
        Inl err \<Rightarrow> Inl (ParseError err)
      | Inr u \<Rightarrow>
          if Scheme u = [] then
            (if \<not> IsAbs p s then Inl InvalidPathError
             else Inr \<lparr>url = u, file = True\<rparr>)
          else if Scheme u = ''file'' then
            (let path = (if GOOS p = ''windows'' then FromSlash p (TrimPrefix (Path u) ''/'')
                         else Path u)
             in Inr \<lparr>url = u\<lparr>Scheme := [], Path := path\<rparr>, file = True\<rparr>)
          else if Scheme u \<noteq> ''http'' \<and> Scheme u \<noteq> ''https'' then
            Inl (UnsupportedSchemeError (Scheme u))
          else Inr \<lparr>url = u, file = False\<rparr>)"

definition Resolve :: "platform \<Rightarrow> Locator \<Rightarrow> string \<Rightarrow> error + Locator" where
  "Resolve p base s =
     (case Parse s of
        Inl err \<Rightarrow> Inl (ParseError err)
      | Inr u \<Rightarrow>
          if Scheme u \<noteq> [] then New p s
          else if file base then
            (if IsAbs p s then Inr \<lparr>url = u, file = True\<rparr>
             else
               let baseDir = Dir p (Path (url base));
                   path = Join p baseDir s
               in Inr \<lparr>url = empty_URL\<lparr>Path := path\<rparr>, file = True\<rparr>)
          else Inr \<lparr>url = ResolveReference (url base) u, file = False\<rparr>)"



text \<open>\<^verbatim>\<open>UnmarshalJSON\<close> writes to its receiver: the model returns the receiver after the
  call and the error (\<open>None\<close> for \<^verbatim>\<open>nil\<close>).\<close>

definition UnmarshalJSON :: "platform \<Rightarrow> Locator \<Rightarrow> string \<Rightarrow> Locator \<times> error option" where
  "UnmarshalJSON p l data =
     (case json_Unmarshal data of
        Inl err \<Rightarrow> (l, Some (JSONError err))
      | Inr jl \<Rightarrow>
          if Url jl = [] then (l, Some MissingFieldError)
          else
            (case New p (Url jl) of
               Inl newErr \<Rightarrow> (l, Some newErr)
             | Inr nl \<Rightarrow>
                 if File jl \<noteq> file nl then (l, Some InconsistentStateError)
                 else (l\<lparr>file := File jl, url := url nl\<rparr>, None)))"


text \<open>\<^verbatim>\<open>Resolve\<close> has a pointer receiver.  No statement of the method assigns to a field
  of \<^verbatim>\<open>base\<close> or of the URL it points to (\<^verbatim>\<open>ResolveReference\<close> works on a copy of the
  reference), so a call returns the receiver as it was, together with its results.\<close>

definition Resolve_call :: "platform \<Rightarrow> Locator \<Rightarrow> string \<Rightarrow> Locator \<times> (error + Locator)" where
  "Resolve_call p base s = (base, Resolve p base s)"

section \<open>Notions for the properties\<close>

text \<open>The Locators that a program can hold on platform \<open>p\<close>: what \<^verbatim>\<open>New\<close> returns, what
  \<^verbatim>\<open>Resolve\<close> returns on such a base, what \<^verbatim>\<open>UnmarshalJSON\<close> leaves in its receiver when
  it succeeds, and any of these after calls of \<^verbatim>\<open>SetQueryParam\<close>.\<close>

inductive reachable :: "platform \<Rightarrow> Locator \<Rightarrow> bool" for p :: platform where
  by_New: "New p s = Inr l \<Longrightarrow> reachable p l"
| by_Resolve: "reachable p base \<Longrightarrow> Resolve p base s = Inr l \<Longrightarrow> reachable p l"
| by_UnmarshalJSON: "UnmarshalJSON p l0 data = (l, None) \<Longrightarrow> reachable p l"
| by_SetQueryParam: "reachable p l \<Longrightarrow> reachable p (SetQueryParam l param val)"

text \<open>An absolute POSIX path that does not start with two slashes and is made of the
  bytes that the escaping of URL paths leaves alone: ASCII letters and digits and the
  characters \<^verbatim>\<open>-_.~$&+,/:;=@\<close>.\<close>

definition plain_path :: "string \<Rightarrow> bool" where
  "plain_path s = (HasPrefix s ''/'' \<and> \<not> HasPrefix s ''//''
                   \<and> list_all (\<lambda>c. \<not> shouldEscape c encodePath) s)"

text \<open>The pairs of a key and one of its values that \<^verbatim>\<open>Encode\<close> writes, in its order, the text
  it writes for a pair, and what the loop of \<^verbatim>\<open>parseQuery\<close> does with that text.\<close>

definition add_pair :: "string \<times> string \<Rightarrow> Values \<Rightarrow> Values" where
  "add_pair kv m = AList.update (fst kv) (Values_Get m (fst kv) @ [snd kv]) m"

definition encode_pair :: "string \<times> string \<Rightarrow> string" where
  "encode_pair kv = QueryEscape (fst kv) @ ''='' @ QueryEscape (snd kv)"

definition value_pairs :: "Values \<Rightarrow> string list \<Rightarrow> (string \<times> string) list" where
  "value_pairs v keys = concat (map (\<lambda>k. map (Pair k) (Values_Get v k)) keys)"

text \<open>\<^verbatim>\<open>utf8.ValidString\<close>: the text is a sequence of well-formed runes.\<close>

fun valid_utf8 :: "string \<Rightarrow> bool" where
  "valid_utf8 [] = True"
| "valid_utf8 (c # cs) =
     (if byte c < 128 then valid_utf8 cs
      else (case utf8_multibyte (c # cs) of
              None \<Rightarrow> False
            | Some sz \<Rightarrow> valid_utf8 (drop (sz - 1) cs)))"

section \<open>Evaluation of the examples\<close>

lemma posix_simps:
  "GOOS posix = ''linux''" "IsAbs posix = unix_IsAbs" "Dir posix = unix_Dir"
  "Join posix = unix_Join" "FromSlash posix = (\<lambda>s. s)"
  by (simp_all add: posix_def)

lemma Parse_ftp:
  "Parse ''ftp://host/path''
     = Inr (empty_URL\<lparr>Scheme := ''ftp'', Host := ''host'', Path := ''/path''\<rparr>)"
  by code_simp

lemma Parse_rel: "Parse ''a/b'' = Inr (empty_URL\<lparr>Path := ''a/b''\<rparr>)"
  by code_simp

lemma Parse_https_x:
  "Parse ''https://ex.com/x''
     = Inr (empty_URL\<lparr>Scheme := ''https'', Host := ''ex.com'', Path := ''/x''\<rparr>)"
  by code_simp

lemma Parse_d_txt: "Parse ''d.txt'' = Inr (empty_URL\<lparr>Path := ''d.txt''\<rparr>)"
  by code_simp

lemma Parse_bad_escape: "Parse ''%zz'' = Inl (EscapeError ''%zz'')"
  by code_simp

lemma New_abc:
  "New posix ''/a/b/c.txt'' = Inr \<lparr>url = empty_URL\<lparr>Path := ''/a/b/c.txt''\<rparr>, file = True\<rparr>"
  by code_simp

lemma New_a_b: "New posix ''/a/b'' = Inr \<lparr>url = empty_URL\<lparr>Path := ''/a/b''\<rparr>, file = True\<rparr>"
  by code_simp

lemma Join_example: "unix_Join (unix_Dir ''/a/b/c.txt'') ''d.txt'' = ''/a/b/d.txt''"
  by code_simp

lemma String_example: "URL_String (empty_URL\<lparr>Path := ''/a/b/d.txt''\<rparr>) = ''/a/b/d.txt''"
  by code_simp

lemma Unmarshal_no_url: "json_Unmarshal ''{\"File\": true}'' = Inr \<lparr>Url = [], File = True\<rparr>"
  by code_simp

lemma Unmarshal_mismatch:
  "json_Unmarshal ''{\"Url\": \"/a/b\", \"File\": false}'' = Inr \<lparr>Url = ''/a/b'', File = False\<rparr>"
  by code_simp

lemma Unmarshal_match:
  "json_Unmarshal ''{\"Url\": \"/a/b\", \"File\": true}'' = Inr \<lparr>Url = ''/a/b'', File = True\<rparr>"
  by code_simp

lemma Unmarshal_malformed: "json_Unmarshal ''{\"Url\": '' = Inl SyntaxError"
  by code_simp

lemma New_slashes_host:
  "New posix ''//host'' = Inr \<lparr>url = empty_URL\<lparr>Host := ''host''\<rparr>, file = True\<rparr>"
  by code_simp

lemma New_file_tmp:
  "New posix ''file:///tmp/x'' = Inr \<lparr>url = empty_URL\<lparr>Path := ''/tmp/x''\<rparr>, file = True\<rparr>"
  by code_simp




lemma New_https_p:
  "New posix ''https://ex.com/p''
     = Inr \<lparr>url = empty_URL\<lparr>Scheme := ''https'', Host := ''ex.com'', Path := ''/p''\<rparr>,
            file = False\<rparr>"
  by code_simp

lemma Set_k_v:
  "SetQueryParam \<lparr>url = empty_URL\<lparr>Scheme := ''https'', Host := ''ex.com'', Path := ''/p''\<rparr>,
                  file = False\<rparr> ''k'' ''v''
     = \<lparr>url = empty_URL\<lparr>Scheme := ''https'', Host := ''ex.com'', Path := ''/p'',
                          RawQuery := ''k=v''\<rparr>, file = False\<rparr>"
  by code_simp

lemma Del_k:
  "SetQueryParam \<lparr>url = empty_URL\<lparr>Scheme := ''https'', Host := ''ex.com'', Path := ''/p'',
                          RawQuery := ''k=v''\<rparr>, file = False\<rparr> ''k'' []
     = \<lparr>url = empty_URL\<lparr>Scheme := ''https'', Host := ''ex.com'', Path := ''/p''\<rparr>,
        file = False\<rparr>"
  by code_simp

lemma Query_k_v:
  "Query (empty_URL\<lparr>Scheme := ''https'', Host := ''ex.com'', Path := ''/p'', RawQuery := ''k=v''\<rparr>)
     = [(''k'', [''v''])]"
  by code_simp

lemma Set_on_file:
  "SetQueryParam \<lparr>url = empty_URL\<lparr>Path := ''/a/b''\<rparr>, file = True\<rparr> ''k'' ''v''
     = \<lparr>url = empty_URL\<lparr>Path := ''/a/b''\<rparr>, file = True\<rparr>"
  by code_simp







lemma parse_no_url:
  "json_parse ''{\"File\": true}'' = Some (JObject [(''File'', JBool True)])"
  by code_simp

lemma field_of_File: "field_of ''File'' = Some Field_File"
  by (simp add: field_of_def)

lemma Parse_dots: "Parse ''../x//y/./z'' = Inr (empty_URL\<lparr>Path := ''../x//y/./z''\<rparr>)"
  by code_simp

lemma Join_dots: "unix_Join (unix_Dir ''/a/b/c.txt'') ''../x//y/./z'' = ''/a/x/y/z''"
  by code_simp

section \<open>Construction and resolution\<close>

text \<open>
  Claim C4.  Once the URL syntax of the input is accepted, \<^verbatim>\<open>New\<close> fails as the taxonomy
  of errors says: an input whose parsed scheme is empty and which is not an absolute
  path of the platform gives the error \<^verbatim>\<open>"expected absolute path"\<close>; an input whose
  parsed scheme is none of the empty scheme, \<^verbatim>\<open>file\<close>, \<^verbatim>\<open>http\<close> and \<^verbatim>\<open>https\<close> gives the
  error \<^verbatim>\<open>"unsupported scheme"\<close> with that scheme; and \<^verbatim>\<open>New\<close> fails in no other case.
\<close>

theorem New_failures:
  assumes "Parse s = Inr u"
  shows "(Scheme u = [] \<and> \<not> IsAbs p s \<longrightarrow> New p s = Inl InvalidPathError)
       \<and> (Scheme u \<notin> {[], ''file'', ''http'', ''https''}
            \<longrightarrow> New p s = Inl (UnsupportedSchemeError (Scheme u)))
       \<and> (New p s = Inl e \<longrightarrow>
            (e = InvalidPathError \<and> Scheme u = [] \<and> \<not> IsAbs p s)
            \<or> (e = UnsupportedSchemeError (Scheme u)
                \<and> Scheme u \<notin> {[], ''file'', ''http'', ''https''}))"
  using assms by (auto simp add: New_def Let_def split: if_splits)

theorem New_failures_witness:
  "New posix ''a/b'' = Inl InvalidPathError
   \<and> New posix ''ftp://host/path'' = Inl (UnsupportedSchemeError ''ftp'')"
proof -
  have abs: "\<not> IsAbs posix ''a/b''"
    by (simp add: posix_simps unix_IsAbs_def)
  have s1: "Scheme (empty_URL\<lparr>Path := ''a/b''\<rparr>) = []"
    by (simp add: empty_URL_def)
  have s2: "Scheme (empty_URL\<lparr>Scheme := ''ftp'', Host := ''host'', Path := ''/path''\<rparr>)
              \<notin> {[], ''file'', ''http'', ''https''}"
    by simp
  from New_failures [OF Parse_rel, where p = posix and e = InvalidPathError] abs s1
  have 1: "New posix ''a/b'' = Inl InvalidPathError"
    by blast
  from New_failures [OF Parse_ftp, where p = posix and e = InvalidPathError] s2
  have "New posix ''ftp://host/path''
          = Inl (UnsupportedSchemeError
                   (Scheme (empty_URL\<lparr>Scheme := ''ftp'', Host := ''host'', Path := ''/path''\<rparr>)))"
    by blast
  then have 2: "New posix ''ftp://host/path'' = Inl (UnsupportedSchemeError ''ftp'')"
    by simp
  from 1 2 show ?thesis by simp
qed

text \<open>
  Claim C5.  For every base Locator, of either kind, and every reference whose parse has
  a scheme, \<^verbatim>\<open>Resolve\<close> returns what \<^verbatim>\<open>New\<close> returns on the reference, whatever the
  base is; so \<^verbatim>\<open>https://ex.com/x\<close> resolves against any base to the Remote Locator of
  that URL.
\<close>

theorem Resolve_absolute_reference:
  "(Parse s = Inr u \<and> Scheme u \<noteq> [] \<longrightarrow> Resolve p base s = New p s)
   \<and> Resolve p base ''https://ex.com/x''
       = Inr \<lparr>url = empty_URL\<lparr>Scheme := ''https'', Host := ''ex.com'', Path := ''/x''\<rparr>,
              file = False\<rparr>"
  by (auto simp add: Resolve_def New_def Parse_https_x empty_URL_def)

theorem Resolve_absolute_reference_witness:
  "Resolve posix \<lparr>url = empty_URL\<lparr>Path := ''/a/b''\<rparr>, file = True\<rparr> ''ftp://host/path''
     = New posix ''ftp://host/path''
   \<and> New posix ''ftp://host/path'' = Inl (UnsupportedSchemeError ''ftp'')"
proof -
  have "Scheme (empty_URL\<lparr>Scheme := ''ftp'', Host := ''host'', Path := ''/path''\<rparr>) \<noteq> []"
    by simp
  with Parse_ftp Resolve_absolute_reference
    [of "''ftp://host/path''" "empty_URL\<lparr>Scheme := ''ftp'', Host := ''host'', Path := ''/path''\<rparr>"
        posix "\<lparr>url = empty_URL\<lparr>Path := ''/a/b''\<rparr>, file = True\<rparr>"]
  have "Resolve posix \<lparr>url = empty_URL\<lparr>Path := ''/a/b''\<rparr>, file = True\<rparr> ''ftp://host/path''
     = New posix ''ftp://host/path''"
    by blast
  moreover have "New posix ''ftp://host/path'' = Inl (UnsupportedSchemeError ''ftp'')"
    by (simp add: New_def Parse_ftp empty_URL_def)
  ultimately show ?thesis by simp
qed

text \<open>
  Claim C6.  For every File base and every reference without a scheme that is not an
  absolute path of the platform, \<^verbatim>\<open>Resolve\<close> succeeds with a File Locator: its path is
  the join of the directory of the path of the base with the reference, and every other
  field of its URL is empty.  On the POSIX platform, resolving \<^verbatim>\<open>d.txt\<close> against
  \<^verbatim>\<open>New("/a/b/c.txt")\<close> gives the canonical string \<^verbatim>\<open>/a/b/d.txt\<close>.
\<close>

theorem Resolve_relative_file:
  assumes "file base" and "Parse s = Inr u" and "Scheme u = []" and "\<not> IsAbs p s"
  shows "Resolve p base s
           = Inr \<lparr>url = empty_URL\<lparr>Path := Join p (Dir p (Path (url base))) s\<rparr>, file = True\<rparr>"
  using assms by (simp add: Resolve_def)

theorem Resolve_relative_file_witness:
  "New posix ''/a/b/c.txt'' = Inr \<lparr>url = empty_URL\<lparr>Path := ''/a/b/c.txt''\<rparr>, file = True\<rparr>
   \<and> Resolve posix \<lparr>url = empty_URL\<lparr>Path := ''/a/b/c.txt''\<rparr>, file = True\<rparr> ''d.txt''
       = Inr \<lparr>url = empty_URL\<lparr>Path := ''/a/b/d.txt''\<rparr>, file = True\<rparr>
   \<and> String \<lparr>url = empty_URL\<lparr>Path := ''/a/b/d.txt''\<rparr>, file = True\<rparr> = ''/a/b/d.txt''
   \<and> Resolve posix \<lparr>url = empty_URL\<lparr>Path := ''/a/b/c.txt''\<rparr>, file = True\<rparr> ''../x//y/./z''
       = Inr \<lparr>url = empty_URL\<lparr>Path := ''/a/x/y/z''\<rparr>, file = True\<rparr>"
proof -
  have "\<not> IsAbs posix ''d.txt''"
    by (simp add: posix_simps unix_IsAbs_def)
  from Resolve_relative_file [OF _ Parse_d_txt _ this,
      of "\<lparr>url = empty_URL\<lparr>Path := ''/a/b/c.txt''\<rparr>, file = True\<rparr>"]
  have 1: "Resolve posix \<lparr>url = empty_URL\<lparr>Path := ''/a/b/c.txt''\<rparr>, file = True\<rparr> ''d.txt''
       = Inr \<lparr>url = empty_URL\<lparr>Path := ''/a/b/d.txt''\<rparr>, file = True\<rparr>"
    by (simp add: posix_simps Join_example) (simp add: empty_URL_def)
  have "\<not> IsAbs posix ''../x//y/./z''"
    by (simp add: posix_simps unix_IsAbs_def)
  from Resolve_relative_file [OF _ Parse_dots _ this,
      of "\<lparr>url = empty_URL\<lparr>Path := ''/a/b/c.txt''\<rparr>, file = True\<rparr>"]
  have 2: "Resolve posix \<lparr>url = empty_URL\<lparr>Path := ''/a/b/c.txt''\<rparr>, file = True\<rparr> ''../x//y/./z''
       = Inr \<lparr>url = empty_URL\<lparr>Path := ''/a/x/y/z''\<rparr>, file = True\<rparr>"
    by (simp add: posix_simps Join_dots) (simp add: empty_URL_def)
  from 1 2 show ?thesis
    by (simp add: New_abc String_def String_example)
qed

section \<open>Query parameters\<close>

text \<open>
  Claim C10.  \<^verbatim>\<open>SetQueryParam\<close> changes at most the query of the URL of a Locator: the
  scheme, the host, the path and the fragment are the same before and after the call,
  for every Locator, parameter and value; the Locator after the call is the one before
  it with some raw query stored.
\<close>

theorem SetQueryParam_frame:
  "Scheme (url (SetQueryParam l param val)) = Scheme (url l)
   \<and> Host (url (SetQueryParam l param val)) = Host (url l)
   \<and> Path (url (SetQueryParam l param val)) = Path (url l)
   \<and> Fragment (url (SetQueryParam l param val)) = Fragment (url l)
   \<and> (\<exists>q. SetQueryParam l param val = l\<lparr>url := (url l)\<lparr>RawQuery := q\<rparr>\<rparr>)"
proof (cases "file l")
  case True
  have "\<exists>q. l = l\<lparr>url := (url l)\<lparr>RawQuery := q\<rparr>\<rparr>"
    by (rule exI [of _ "RawQuery (url l)"]) simp
  with True show ?thesis
    by (simp add: SetQueryParam_def)
next
  case False
  then show ?thesis
    by (auto simp add: SetQueryParam_def Let_def)
qed

theorem SetQueryParam_frame_witness:
  "Scheme (url (SetQueryParam
      \<lparr>url = empty_URL\<lparr>Scheme := ''https'', Host := ''ex.com'', Path := ''/p''\<rparr>, file = False\<rparr>
      ''k'' ''v'')) = ''https''
   \<and> Host (url (SetQueryParam
      \<lparr>url = empty_URL\<lparr>Scheme := ''https'', Host := ''ex.com'', Path := ''/p''\<rparr>, file = False\<rparr>
      ''k'' ''v'')) = ''ex.com''
   \<and> Path (url (SetQueryParam
      \<lparr>url = empty_URL\<lparr>Scheme := ''https'', Host := ''ex.com'', Path := ''/p''\<rparr>, file = False\<rparr>
      ''k'' ''v'')) = ''/p''"
  using SetQueryParam_frame
    [of "\<lparr>url = empty_URL\<lparr>Scheme := ''https'', Host := ''ex.com'', Path := ''/p''\<rparr>, file = False\<rparr>"
        "''k''" "''v''"]
  by (simp add: empty_URL_def)

section \<open>Serialization\<close>

lemma store_member_Url:
  assumes "field_of (fst m) \<noteq> Some Field_Url"
  shows "Url (fst (store_member m st)) = Url (fst st)"
proof (cases m, cases st)
  fix key v jl err
  assume "m = (key, v)" and "st = (jl, err)"
  with assms show ?thesis
    by (cases "field_of key"; cases v) (auto split: field.splits)
qed

lemma fold_store_member_Url:
  "\<forall>m \<in> set ms. field_of (fst m) \<noteq> Some Field_Url \<Longrightarrow>
   Url (fst (fold store_member ms st)) = Url (fst st)"
  by (induction ms arbitrary: st) (simp_all add: store_member_Url)

lemma json_Unmarshal_no_Url:
  assumes "json_Unmarshal data = Inr jl" and "json_parse data = Some (JObject ms)"
    and "\<forall>m \<in> set ms. field_of (fst m) \<noteq> Some Field_Url"
  shows "Url jl = []"
proof -
  from assms(1,2) have "jl = fst (fold store_member ms (\<lparr>Url = [], File = False\<rparr>, False))"
    by (auto simp add: json_Unmarshal_def split: prod.splits if_splits)
  with fold_store_member_Url [OF assms(3)] show ?thesis
    by simp
qed

text \<open>
  Claim C8.  Let the input decode to a structured form.  When its \<^verbatim>\<open>Url\<close> is empty, as it
  is when no member of the JSON object names the field, \<^verbatim>\<open>UnmarshalJSON\<close> fails with
  \<^verbatim>\<open>"missing url"\<close>; when \<^verbatim>\<open>New\<close> accepts the \<^verbatim>\<open>Url\<close> and the \<^verbatim>\<open>File\<close> flag differs from
  the kind of the Locator that \<^verbatim>\<open>New\<close> builds, it fails with \<^verbatim>\<open>"file flag mismatch"\<close>; when
  the flag agrees, the receiver becomes the Locator that \<^verbatim>\<open>New\<close> builds.  In the two
  failures the receiver is as it was.
\<close>

theorem UnmarshalJSON_checks:
  assumes "json_Unmarshal data = Inr jl"
  shows "(Url jl = [] \<longrightarrow> UnmarshalJSON p l data = (l, Some MissingFieldError))
       \<and> (json_parse data = Some (JObject ms)
            \<and> (\<forall>m \<in> set ms. field_of (fst m) \<noteq> Some Field_Url) \<longrightarrow> Url jl = [])
       \<and> (Url jl \<noteq> [] \<and> New p (Url jl) = Inr nl \<and> File jl \<noteq> file nl
            \<longrightarrow> UnmarshalJSON p l data = (l, Some InconsistentStateError))
       \<and> (Url jl \<noteq> [] \<and> New p (Url jl) = Inr nl \<and> File jl = file nl
            \<longrightarrow> UnmarshalJSON p l data = (nl, None))"
proof -
  have "Url jl = []" if "json_parse data = Some (JObject ms)"
    and "\<forall>m \<in> set ms. field_of (fst m) \<noteq> Some Field_Url"
    using assms that by (rule json_Unmarshal_no_Url)
  moreover have "Url jl = [] \<longrightarrow> UnmarshalJSON p l data = (l, Some MissingFieldError)"
    using assms by (simp add: UnmarshalJSON_def)
  moreover have "Url jl \<noteq> [] \<and> New p (Url jl) = Inr nl \<and> File jl \<noteq> file nl
            \<longrightarrow> UnmarshalJSON p l data = (l, Some InconsistentStateError)"
    using assms by (simp add: UnmarshalJSON_def)
  moreover have "Url jl \<noteq> [] \<and> New p (Url jl) = Inr nl \<and> File jl = file nl
            \<longrightarrow> UnmarshalJSON p l data = (nl, None)"
    using assms by (auto simp add: UnmarshalJSON_def)
  ultimately show ?thesis by blast
qed

theorem UnmarshalJSON_checks_witness:
  "UnmarshalJSON posix \<lparr>url = empty_URL, file = False\<rparr> ''{\"File\": true}''
     = (\<lparr>url = empty_URL, file = False\<rparr>, Some MissingFieldError)
   \<and> UnmarshalJSON posix \<lparr>url = empty_URL, file = False\<rparr> ''{\"Url\": \"/a/b\", \"File\": false}''
     = (\<lparr>url = empty_URL, file = False\<rparr>, Some InconsistentStateError)
   \<and> UnmarshalJSON posix \<lparr>url = empty_URL, file = False\<rparr> ''{\"Url\": \"/a/b\", \"File\": true}''
     = (\<lparr>url = empty_URL\<lparr>Path := ''/a/b''\<rparr>, file = True\<rparr>, None)"
proof -
  from UnmarshalJSON_checks [OF Unmarshal_no_url, where p = posix
      and l = "\<lparr>url = empty_URL, file = False\<rparr>" and ms = "[(''File'', JBool True)]"
      and nl = "\<lparr>url = empty_URL, file = False\<rparr>"]
    parse_no_url field_of_File
  have 1: "UnmarshalJSON posix \<lparr>url = empty_URL, file = False\<rparr> ''{\"File\": true}''
     = (\<lparr>url = empty_URL, file = False\<rparr>, Some MissingFieldError)"
    by simp
  from UnmarshalJSON_checks [OF Unmarshal_mismatch, where p = posix
      and nl = "\<lparr>url = empty_URL\<lparr>Path := ''/a/b''\<rparr>, file = True\<rparr>"
      and l = "\<lparr>url = empty_URL, file = False\<rparr>" and ms = "[]"]
  have 2: "UnmarshalJSON posix \<lparr>url = empty_URL, file = False\<rparr>
      ''{\"Url\": \"/a/b\", \"File\": false}''
     = (\<lparr>url = empty_URL, file = False\<rparr>, Some InconsistentStateError)"
    by (simp add: New_a_b)
  from UnmarshalJSON_checks [OF Unmarshal_match, where p = posix
      and nl = "\<lparr>url = empty_URL\<lparr>Path := ''/a/b''\<rparr>, file = True\<rparr>"
      and l = "\<lparr>url = empty_URL, file = False\<rparr>" and ms = "[]"]
  have 3: "UnmarshalJSON posix \<lparr>url = empty_URL, file = False\<rparr>
      ''{\"Url\": \"/a/b\", \"File\": true}''
     = (\<lparr>url = empty_URL\<lparr>Path := ''/a/b''\<rparr>, file = True\<rparr>, None)"
    by (simp add: New_a_b)
  from 1 2 3 show ?thesis by simp
qed

text \<open>
  Claim C9.  A failing operation leaves its receiver as it was: when \<^verbatim>\<open>Resolve\<close> fails,
  the base Locator after the call is the base Locator before it; when \<^verbatim>\<open>UnmarshalJSON\<close>
  returns an error (malformed JSON, a missing \<^verbatim>\<open>Url\<close>, a failure of \<^verbatim>\<open>New\<close> or a
  mismatch of the flag), the receiver after the call is the receiver before it.
\<close>

theorem failure_leaves_receiver:
  "(snd (Resolve_call p base s) = Inl e \<longrightarrow> fst (Resolve_call p base s) = base)
   \<and> (snd (UnmarshalJSON p l data) \<noteq> None \<longrightarrow> fst (UnmarshalJSON p l data) = l)"
  by (auto simp add: Resolve_call_def UnmarshalJSON_def split: sum.splits if_splits)

theorem failure_leaves_receiver_witness:
  "snd (Resolve_call posix \<lparr>url = empty_URL\<lparr>Path := ''/a/b''\<rparr>, file = True\<rparr> ''%zz'')
     = Inl (ParseError (EscapeError ''%zz''))
   \<and> fst (Resolve_call posix \<lparr>url = empty_URL\<lparr>Path := ''/a/b''\<rparr>, file = True\<rparr> ''%zz'')
     = \<lparr>url = empty_URL\<lparr>Path := ''/a/b''\<rparr>, file = True\<rparr>
   \<and> snd (UnmarshalJSON posix \<lparr>url = empty_URL\<lparr>Path := ''/a/b''\<rparr>, file = True\<rparr> ''{\"Url\": '')
     = Some (JSONError SyntaxError)
   \<and> fst (UnmarshalJSON posix \<lparr>url = empty_URL\<lparr>Path := ''/a/b''\<rparr>, file = True\<rparr> ''{\"Url\": '')
     = \<lparr>url = empty_URL\<lparr>Path := ''/a/b''\<rparr>, file = True\<rparr>"
proof -
  have 1: "snd (Resolve_call posix \<lparr>url = empty_URL\<lparr>Path := ''/a/b''\<rparr>, file = True\<rparr> ''%zz'')
     = Inl (ParseError (EscapeError ''%zz''))"
    by (simp add: Resolve_call_def Resolve_def Parse_bad_escape)
  have 2: "snd (UnmarshalJSON posix \<lparr>url = empty_URL\<lparr>Path := ''/a/b''\<rparr>, file = True\<rparr>
      ''{\"Url\": '') = Some (JSONError SyntaxError)"
    by (simp add: UnmarshalJSON_def Unmarshal_malformed)
  from 1 2 failure_leaves_receiver
    [of posix "\<lparr>url = empty_URL\<lparr>Path := ''/a/b''\<rparr>, file = True\<rparr>" "''%zz''"
        "ParseError (EscapeError ''%zz'')"
        "\<lparr>url = empty_URL\<lparr>Path := ''/a/b''\<rparr>, file = True\<rparr>" "''{\"Url\": ''"]
  show ?thesis by simp
qed


section \<open>The invariant of Locators\<close>

lemma setPath_Scheme: "setPath u p = Inr u' \<Longrightarrow> Scheme u' = Scheme u"
  by (auto simp add: setPath_def split: sum.splits)

lemma setPath_ignore_Scheme: "Scheme (setPath_ignore u p) = Scheme u"
  by (auto simp add: setPath_ignore_def setPath_def split: sum.splits)

lemma ResolveReference_Scheme:
  "Scheme ref = [] \<Longrightarrow> Scheme (ResolveReference u ref) = Scheme u"
  by (simp add: ResolveReference_def Let_def setPath_ignore_Scheme)

lemma New_invariant:
  assumes "New p s = Inr l"
  shows "(file l \<longrightarrow> Scheme (url l) = [])
       \<and> (\<not> file l \<longrightarrow> Scheme (url l) = ''http'' \<or> Scheme (url l) = ''https'')"
  using assms by (auto simp add: New_def Let_def split: sum.splits if_splits)

lemma Locator_overwrite: "(l0::Locator)\<lparr>file := file nl, url := url nl\<rparr> = (nl::Locator)"
  by (cases nl, cases l0) simp

lemma UnmarshalJSON_success:
  assumes "UnmarshalJSON p l0 data = (l, None)"
  shows "\<exists>jl. json_Unmarshal data = Inr jl \<and> Url jl \<noteq> [] \<and> New p (Url jl) = Inr l
              \<and> File jl = file l"
proof (cases "json_Unmarshal data")
  case (Inl e)
  with assms show ?thesis by (simp add: UnmarshalJSON_def)
next
  case (Inr jl)
  show ?thesis
  proof (cases "New p (Url jl)")
    case (Inl e)
    with Inr assms show ?thesis by (simp add: UnmarshalJSON_def split: if_splits)
  next
    case nl: (Inr nl)
    with Inr assms have "Url jl \<noteq> []" and "File jl = file nl"
      and "l = l0\<lparr>file := file nl, url := url nl\<rparr>"
      by (auto simp add: UnmarshalJSON_def split: if_splits)
    with Inr nl show ?thesis by (simp add: Locator_overwrite)
  qed
qed

text \<open>
  Claim C1, as the code has it.  For every Locator that \<^verbatim>\<open>New\<close>, \<^verbatim>\<open>Resolve\<close> or
  \<^verbatim>\<open>UnmarshalJSON\<close> produces, also after calls of \<^verbatim>\<open>SetQueryParam\<close>: if it is a File
  Locator, the scheme of its URL is empty; if it is a Remote Locator, the scheme of its
  URL is \<^verbatim>\<open>http\<close> or \<^verbatim>\<open>https\<close>.  Nothing is said of the path of a File Locator.
\<close>

theorem reachable_scheme:
  assumes "reachable p l"
  shows "(file l \<longrightarrow> Scheme (url l) = [])
       \<and> (\<not> file l \<longrightarrow> Scheme (url l) = ''http'' \<or> Scheme (url l) = ''https'')"
  using assms
proof (induction rule: reachable.induct)
  case (by_New s l)
  then show ?case by (rule New_invariant)
next
  case (by_Resolve base s l)
  show ?case
  proof (cases "Parse s")
    case (Inl e)
    with by_Resolve.hyps show ?thesis by (simp add: Resolve_def)
  next
    case (Inr u)
    show ?thesis
    proof (cases "Scheme u = []")
      case False
      with Inr by_Resolve.hyps have "New p s = Inr l" by (simp add: Resolve_def)
      then show ?thesis by (rule New_invariant)
    next
      case True
      with Inr by_Resolve.hyps by_Resolve.IH show ?thesis
        by (auto simp add: Resolve_def Let_def ResolveReference_Scheme empty_URL_def
                 split: if_splits)
    qed
  qed
next
  case (by_UnmarshalJSON l0 data l)
  from UnmarshalJSON_success [OF this] obtain jl :: jsonLocator where "New p (Url jl) = Inr l"
    by blast
  then show ?case by (rule New_invariant)
next
  case (by_SetQueryParam l param val)
  then show ?case by (auto simp add: SetQueryParam_def Let_def)
qed

theorem reachable_scheme_witness:
  "reachable posix \<lparr>url = empty_URL\<lparr>Path := ''/tmp/x''\<rparr>, file = True\<rparr>
   \<and> Scheme (url \<lparr>url = empty_URL\<lparr>Path := ''/tmp/x''\<rparr>, file = True\<rparr>) = []"
  using reachable_scheme [OF reachable.by_New [OF New_file_tmp]] reachable.by_New [OF New_file_tmp]
  by simp


text \<open>
  Claim C1 as stated also wants the path of every File Locator to be an absolute path of
  the platform.  On the POSIX platform \<^verbatim>\<open>New("//host")\<close> succeeds with a File Locator,
  since the input starts with a slash, and \<^verbatim>\<open>url.Parse\<close> has read \<^verbatim>\<open>host\<close> as the
  authority: the path of the Locator is empty, which is not an absolute path.
\<close>

theorem path_not_absolute_counterexample:
  "reachable posix \<lparr>url = empty_URL\<lparr>Host := ''host''\<rparr>, file = True\<rparr>
   \<and> file \<lparr>url = empty_URL\<lparr>Host := ''host''\<rparr>, file = True\<rparr>
   \<and> \<not> IsAbs posix (Path (url \<lparr>url = empty_URL\<lparr>Host := ''host''\<rparr>, file = True\<rparr>))"
  using reachable.by_New [OF New_slashes_host]
  by (simp add: posix_simps unix_IsAbs_def empty_URL_def)


section \<open>The canonical string of a constructed Locator\<close>

lemmas char_class_defs = byte_def isLower_def isUpper_def isDigit_def chr_apos_def chr_quote_def
  chr_backslash_def host_sub_delims_def

lemma shouldEscape_path_iff:
  "shouldEscape c encodePath \<longleftrightarrow>
     \<not> (isLower c \<or> isUpper c \<or> isDigit c \<or> c \<in> set ''-_.~$&+,/:;=@'')"
  by (simp add: shouldEscape_def)

lemma shouldEscape_query_iff:
  "shouldEscape c encodeQueryComponent \<longleftrightarrow>
     \<not> (isLower c \<or> isUpper c \<or> isDigit c \<or> c \<in> set ''-_.~'')"
  by (simp add: shouldEscape_def)





























section \<open>Setting and deleting a query parameter\<close>

lemma byte_less_256: "byte c < 256"
  by (simp add: byte_def)

lemma nibble_cases:
  assumes "n < (16::nat)"
  shows "n \<in> {0, 1, 2, 3, 4, 5, 6, 7, 8, 9, 10, 11, 12, 13, 14, 15}"
  using assms by auto arith

lemma upperhex_props:
  assumes "n < 16"
  shows "ishex (upperhex n)" and "unhex (upperhex n) = n"
    and "upperhex n \<in> set ''0123456789ABCDEF''"
  using nibble_cases [OF assms]
  by (auto simp add: upperhex_def ishex_def unhex_def char_class_defs)


lemma hex_byte: "char_of (byte c div 16 * 16 + byte c mod 16) = c" "char_of (byte c) = c"
  by (simp_all add: byte_def)

lemma query_safe_char:
  assumes "\<not> shouldEscape c encodeQueryComponent"
  shows "c \<noteq> CHR ''%''" "c \<noteq> CHR ''+''" "c \<noteq> CHR ''&''" "c \<noteq> CHR ''=''" "c \<noteq> CHR '';''"
  using assms by (auto simp add: shouldEscape_query_iff char_class_defs)

lemma unescape_query_percent:
  assumes "n1 < 16" and "n2 < 16"
  shows "unescape (CHR ''%'' # upperhex n1 # upperhex n2 # rest) encodeQueryComponent
           = (case unescape rest encodeQueryComponent of
                Inl e \<Rightarrow> Inl e | Inr t \<Rightarrow> Inr (char_of (n1 * 16 + n2) # t))"
  by (cases "unescape rest encodeQueryComponent")
     (simp_all add: upperhex_props [OF assms(1)] upperhex_props [OF assms(2)])

lemma unescape_query_safe:
  assumes "\<not> shouldEscape c encodeQueryComponent"
  shows "unescape (c # rest) encodeQueryComponent
           = (case unescape rest encodeQueryComponent of
                Inl e \<Rightarrow> Inl e | Inr t \<Rightarrow> Inr (c # t))"
  using query_safe_char [OF assms] by simp

lemma unescape_query_plus:
  "unescape (CHR ''+'' # rest) encodeQueryComponent
           = (case unescape rest encodeQueryComponent of
                Inl e \<Rightarrow> Inl e | Inr t \<Rightarrow> Inr (CHR '' '' # t))"
  by simp

lemma QueryUnescape_QueryEscape: "QueryUnescape (QueryEscape s) = Inr s"
proof (induction s)
  case Nil
  show ?case by (simp add: QueryUnescape_def QueryEscape_def escape_def)
next
  case (Cons c s)
  have d: "byte c div 16 < 16" and m: "byte c mod 16 < 16"
    using byte_less_256 [of c] by auto
  from Cons have ih: "unescape (escape s encodeQueryComponent) encodeQueryComponent = Inr s"
    by (simp add: QueryUnescape_def QueryEscape_def)
  have e: "escape (c # s) encodeQueryComponent
        = (if shouldEscape c encodeQueryComponent then
            (if c = CHR '' '' then ''+''
             else [CHR ''%'', upperhex (byte c div 16), upperhex (byte c mod 16)])
           else [c]) @ escape s encodeQueryComponent"
    by (simp add: escape_def)
  show ?case
    unfolding QueryUnescape_def QueryEscape_def e
    by (simp add: unescape_query_percent [OF d m] unescape_query_safe unescape_query_plus ih
                  hex_byte del: unescape.simps(2))
qed

lemma QueryEscape_chars:
  "set (QueryEscape s) \<inter> {CHR ''&'', CHR ''='', CHR '';''} = {}"
proof (induction s)
  case Nil
  show ?case by (simp add: QueryEscape_def escape_def)
next
  case (Cons c s)
  have d: "byte c div 16 < 16" and m: "byte c mod 16 < 16"
    using byte_less_256 [of c] by auto
  have h: "upperhex n \<notin> {CHR ''&'', CHR ''='', CHR '';''}" if "n < 16" for n
    using upperhex_props(3) [OF that] by auto
  from Cons have ih: "set (escape s encodeQueryComponent) \<inter> {CHR ''&'', CHR ''='', CHR '';''} = {}"
    by (simp add: QueryEscape_def)
  have e: "escape (c # s) encodeQueryComponent
        = (if shouldEscape c encodeQueryComponent then
            (if c = CHR '' '' then ''+''
             else [CHR ''%'', upperhex (byte c div 16), upperhex (byte c mod 16)])
           else [c]) @ escape s encodeQueryComponent"
    by (simp add: escape_def)
  show ?case
    unfolding QueryEscape_def e
    using ih h [OF d] h [OF m] query_safe_char [of c]
    by auto
qed

lemma Split_no_sep: "c \<notin> set a \<Longrightarrow> Split a c = [a]"
  by (induction a) auto

lemma Split_append: "c \<notin> set a \<Longrightarrow> Split (a @ c # b) c = a # Split b c"
  by (induction a) auto

lemma Split_Join:
  assumes "\<forall>seg \<in> set (e # es). c \<notin> set seg"
  shows "Split (Join_strings (e # es) [c]) c = e # es"
  using assms
proof (induction es arbitrary: e)
  case Nil
  then show ?case by (simp add: Join_strings_def Split_no_sep)
next
  case (Cons x xs)
  from Cons.prems have "Split (Join_strings (x # xs) [c]) c = x # xs"
    by (intro Cons.IH) simp
  moreover have "Join_strings (e # x # xs) [c] = e @ c # Join_strings (x # xs) [c]"
    by (simp add: Join_strings_def)
  moreover from Cons.prems have "c \<notin> set e" by simp
  ultimately show ?case by (simp add: Split_append)
qed

lemma Cut_found: "c \<notin> set a \<Longrightarrow> Cut (a @ c # b) c = (a, b, True)"
proof -
  assume a: "c \<notin> set a"
  have t: "takeWhile (\<lambda>x. x \<noteq> c) (a @ c # b) = a"
    using a by (induction a) auto
  have d: "dropWhile (\<lambda>x. x \<noteq> c) (a @ c # b) = c # b"
    using a by (induction a) auto
  show ?thesis unfolding Cut_def t d by simp
qed

lemma encode_pair_no_amp: "CHR ''&'' \<notin> set (encode_pair kv)"
  using QueryEscape_chars [of "fst kv"] QueryEscape_chars [of "snd kv"]
  by (auto simp add: encode_pair_def)

lemma parseQuery_step_encode_pair: "parseQuery_step (encode_pair kv) m = add_pair kv m"
proof -
  have semi: "\<not> Contains (encode_pair kv) CHR '';''"
    using QueryEscape_chars [of "fst kv"] QueryEscape_chars [of "snd kv"]
    by (auto simp add: encode_pair_def Contains_def)
  have ne: "encode_pair kv \<noteq> []"
    by (simp add: encode_pair_def)
  have "CHR ''='' \<notin> set (QueryEscape (fst kv))"
    using QueryEscape_chars [of "fst kv"] by auto
  then have cut: "Cut (encode_pair kv) CHR ''='' = (QueryEscape (fst kv), QueryEscape (snd kv), True)"
    unfolding encode_pair_def by (simp add: Cut_found)
  show ?thesis
    unfolding parseQuery_step_def cut
    using semi ne by (simp add: QueryUnescape_QueryEscape add_pair_def)
qed

lemma fold_parseQuery_step:
  "fold parseQuery_step (map encode_pair kvs) m = fold add_pair kvs m"
  by (induction kvs arbitrary: m) (simp_all add: parseQuery_step_encode_pair)

lemma Values_Get_update:
  "Values_Get (AList.update k x m) k' = (if k' = k then x else Values_Get m k')"
  by (simp add: Values_Get_def update_conv')

lemma Values_Get_fold_add_pair:
  "Values_Get (fold add_pair kvs m) k = Values_Get m k @ map snd (filter (\<lambda>kv. fst kv = k) kvs)"
  by (induction kvs arbitrary: m) (auto simp add: add_pair_def Values_Get_update)

lemma keys_fold_add_pair:
  "fst ` set (fold add_pair kvs m) = fst ` set m \<union> fst ` set kvs"
proof (induction kvs arbitrary: m)
  case Nil
  show ?case by simp
next
  case (Cons kv kvs)
  have "fst ` set (add_pair kv m) = insert (fst kv) (fst ` set m)"
    using dom_update [of "fst kv" "Values_Get m (fst kv) @ [snd kv]" m]
    by (simp add: add_pair_def)
  with Cons.IH [of "add_pair kv m"] show ?case by auto
qed

lemma filter_value_pairs:
  "distinct keys \<Longrightarrow>
   filter (\<lambda>kv. fst kv = k) (value_pairs v keys)
     = (if k \<in> set keys then map (Pair k) (Values_Get v k) else [])"
proof (induction keys)
  case Nil
  show ?case by (simp add: value_pairs_def)
next
  case (Cons a keys)
  have 1: "filter (\<lambda>kv. fst kv = k) (map (Pair a) xs) = (if a = k then map (Pair a) xs else [])"
    for xs :: "string list"
    by (induction xs) auto
  have "value_pairs v (a # keys) = map (Pair a) (Values_Get v a) @ value_pairs v keys"
    by (simp add: value_pairs_def)
  with Cons show ?case by (auto simp add: 1)
qed

lemma keys_value_pairs:
  "fst ` set (value_pairs v keys) = {k \<in> set keys. Values_Get v k \<noteq> []}"
proof (induction keys)
  case Nil
  show ?case by (simp add: value_pairs_def)
next
  case (Cons a keys)
  have 1: "fst ` Pair a ` set xs = (if xs = [] then {} else {a})" for xs :: "string list"
    by (cases xs) auto
  have "value_pairs v (a # keys) = map (Pair a) (Values_Get v a) @ value_pairs v keys"
    by (simp add: value_pairs_def)
  with Cons show ?case by (auto simp add: 1 image_Un)
qed

lemma Values_Encode_pairs:
  "Values_Encode v
     = Join_strings (map encode_pair (value_pairs v (sort (remdups (map fst v))))) ''&''"
  by (simp add: Values_Encode_def value_pairs_def map_concat comp_def encode_pair_def)

lemma parseQuery_Join:
  "parseQuery m (Join_strings (map encode_pair kvs) ''&'') = fold add_pair kvs m"
proof (cases kvs)
  case Nil
  then show ?thesis
    by (simp add: parseQuery_def Join_strings_def parseQuery_step_def)
next
  case (Cons kv kvs')
  have "Split (Join_strings (encode_pair kv # map encode_pair kvs') ''&'') CHR ''&''
          = encode_pair kv # map encode_pair kvs'"
    by (rule Split_Join) (auto simp add: encode_pair_no_amp)
  then show ?thesis
    using fold_parseQuery_step [of kvs m] by (simp add: parseQuery_def Cons)
qed

lemma Values_Get_absent: "k \<notin> fst ` set v \<Longrightarrow> Values_Get v k = []"
  by (simp add: Values_Get_def map_of_eq_None_iff [THEN iffD2])

lemma Values_Get_parseQuery_Encode:
  "Values_Get (parseQuery [] (Values_Encode v)) k = Values_Get v k"
proof -
  let ?keys = "sort (remdups (map fst v))"
  have d: "distinct ?keys" and s: "set ?keys = fst ` set v"
    by simp_all
  have "Values_Get (parseQuery [] (Values_Encode v)) k
          = map snd (filter (\<lambda>kv. fst kv = k) (value_pairs v ?keys))"
    unfolding Values_Encode_pairs parseQuery_Join Values_Get_fold_add_pair
    by (simp add: Values_Get_def)
  also have "\<dots> = (if k \<in> set ?keys then Values_Get v k else [])"
    unfolding filter_value_pairs [OF d] by (simp add: comp_def)
  also have "\<dots> = Values_Get v k"
    unfolding s using Values_Get_absent [of k v] by simp
  finally show ?thesis .
qed

lemma keys_parseQuery_Encode:
  "k \<in> fst ` set (parseQuery [] (Values_Encode v)) \<longleftrightarrow> Values_Get v k \<noteq> []"
proof -
  let ?keys = "sort (remdups (map fst v))"
  have s: "set ?keys = fst ` set v"
    by simp
  have "fst ` set (parseQuery [] (Values_Encode v)) = fst ` set (value_pairs v ?keys)"
    unfolding Values_Encode_pairs parseQuery_Join keys_fold_add_pair by simp
  also have "\<dots> = {k \<in> set ?keys. Values_Get v k \<noteq> []}"
    by (rule keys_value_pairs)
  finally show ?thesis
    unfolding s using Values_Get_absent [of k v] by blast
qed

lemma Values_Get_Set:
  "Values_Get (Values_Set q k v) k' = (if k' = k then [v] else Values_Get q k')"
  by (simp add: Values_Set_def Values_Get_update)

lemma Values_Get_Del:
  "Values_Get (Values_Del q k) k' = (if k' = k then [] else Values_Get q k')"
  by (simp add: Values_Del_def Values_Get_def delete_conv')

text \<open>
  Claim C7.  On a File Locator \<^verbatim>\<open>SetQueryParam\<close> does nothing, whatever the parameter and
  the value are.  On a Remote Locator it stores the encoding of the changed query values
  as the raw query; when the query is read back from the Locator, a value that is not
  empty is the one value of the parameter, an empty value leaves no parameter of that
  name, and every other parameter has the values it had.
\<close>

theorem SetQueryParam_semantics:
  "(file l \<longrightarrow> SetQueryParam l param val = l)
   \<and> (\<not> file l \<longrightarrow>
        RawQuery (url (SetQueryParam l param val))
          = Values_Encode (if val \<noteq> [] then Values_Set (Query (url l)) param val
                           else Values_Del (Query (url l)) param)
        \<and> (val \<noteq> [] \<longrightarrow> Values_Get (Query (url (SetQueryParam l param val))) param = [val])
        \<and> (val = [] \<longrightarrow> param \<notin> fst ` set (Query (url (SetQueryParam l param val))))
        \<and> (\<forall>k. k \<noteq> param \<longrightarrow>
              Values_Get (Query (url (SetQueryParam l param val))) k
                = Values_Get (Query (url l)) k))"
proof (cases "file l")
  case True
  then show ?thesis by (simp add: SetQueryParam_def)
next
  case False
  let ?q = "if val \<noteq> [] then Values_Set (Query (url l)) param val
            else Values_Del (Query (url l)) param"
  from False have raw: "RawQuery (url (SetQueryParam l param val)) = Values_Encode ?q"
    by (simp add: SetQueryParam_def Let_def)
  then have q: "Query (url (SetQueryParam l param val)) = parseQuery [] (Values_Encode ?q)"
    by (simp add: Query_def)
  have get: "Values_Get (Query (url (SetQueryParam l param val))) k = Values_Get ?q k" for k
    unfolding q by (rule Values_Get_parseQuery_Encode)
  have 1: "val \<noteq> [] \<longrightarrow> Values_Get (Query (url (SetQueryParam l param val))) param = [val]"
    unfolding get by (simp add: Values_Get_Set)
  have 2: "val = [] \<longrightarrow> param \<notin> fst ` set (Query (url (SetQueryParam l param val)))"
    unfolding q keys_parseQuery_Encode by (simp add: Values_Get_Del)
  have 3: "\<forall>k. k \<noteq> param \<longrightarrow>
              Values_Get (Query (url (SetQueryParam l param val))) k
                = Values_Get (Query (url l)) k"
    unfolding get by (simp add: Values_Get_Set Values_Get_Del)
  from False raw 1 2 3 show ?thesis by blast
qed

theorem SetQueryParam_semantics_witness:
  "SetQueryParam \<lparr>url = empty_URL\<lparr>Path := ''/a/b''\<rparr>, file = True\<rparr> ''k'' ''v''
     = \<lparr>url = empty_URL\<lparr>Path := ''/a/b''\<rparr>, file = True\<rparr>
   \<and> Values_Get (Query (url (SetQueryParam
         \<lparr>url = empty_URL\<lparr>Scheme := ''https'', Host := ''ex.com'', Path := ''/p''\<rparr>,
          file = False\<rparr> ''k'' ''v''))) ''k'' = [''v'']
   \<and> ''k'' \<notin> fst ` set (Query (url (SetQueryParam
         \<lparr>url = empty_URL\<lparr>Scheme := ''https'', Host := ''ex.com'', Path := ''/p'',
                          RawQuery := ''k=v''\<rparr>, file = False\<rparr> ''k'' [])))"
proof -
  have 1: "SetQueryParam \<lparr>url = empty_URL\<lparr>Path := ''/a/b''\<rparr>, file = True\<rparr> ''k'' ''v''
     = \<lparr>url = empty_URL\<lparr>Path := ''/a/b''\<rparr>, file = True\<rparr>"
    using SetQueryParam_semantics
      [of "\<lparr>url = empty_URL\<lparr>Path := ''/a/b''\<rparr>, file = True\<rparr>" "''k''" "''v''"]
    by simp
  have 2: "Values_Get (Query (url (SetQueryParam
         \<lparr>url = empty_URL\<lparr>Scheme := ''https'', Host := ''ex.com'', Path := ''/p''\<rparr>,
          file = False\<rparr> ''k'' ''v''))) ''k'' = [''v'']"
    using SetQueryParam_semantics
      [of "\<lparr>url = empty_URL\<lparr>Scheme := ''https'', Host := ''ex.com'', Path := ''/p''\<rparr>,
           file = False\<rparr>" "''k''" "''v''"]
    by simp
  have 3: "''k'' \<notin> fst ` set (Query (url (SetQueryParam
         \<lparr>url = empty_URL\<lparr>Scheme := ''https'', Host := ''ex.com'', Path := ''/p'',
                          RawQuery := ''k=v''\<rparr>, file = False\<rparr> ''k'' [])))"
    using SetQueryParam_semantics
      [of "\<lparr>url = empty_URL\<lparr>Scheme := ''https'', Host := ''ex.com'', Path := ''/p'',
                          RawQuery := ''k=v''\<rparr>, file = False\<rparr>" "''k''" "[]"]
    by simp
  from 1 2 3 show ?thesis by simp
qed



section \<open>Marshalling and unmarshalling\<close>



subsection \<open>The scanner accepts what the encoder writes\<close>












subsection \<open>The decoder reads back what the encoder writes\<close>














subsection \<open>The structured form of a Locator\<close>








lemma plain_char_ascii: "\<not> shouldEscape c encodePath \<Longrightarrow> byte c < 128"
  by (auto simp add: shouldEscape_path_iff char_class_defs)

lemma valid_utf8_ascii: "list_all (\<lambda>c. byte c < 128) s \<Longrightarrow> valid_utf8 s"
  by (induction s) simp_all

lemma valid_utf8_plain_path: "plain_path s \<Longrightarrow> valid_utf8 s"
  by (rule valid_utf8_ascii) (auto simp add: plain_path_def list_all_iff plain_char_ascii)






end
